theory Spec2Isabelle
  imports Main "HOL-Library.AList"
begin

section \<open>Paths\<close>

text \<open>
  Paths are JavaScript strings, modelled as \<open>string\<close>. The functions of this section
  model the string methods and the functions of Node's \<open>path\<close> module that the plugin
  calls, in their POSIX variant (separator \<open>/\<close>); relative operands of
  \<open>path.relative\<close> and of the file-system calls are resolved against the root.
\<close>

type_synonym path = string
type_synonym content = string

definition slash :: char where
  "slash = CHR ''/''"

definition backslash :: char where
  "backslash = CHR 0x5C"

definition startsWith :: "string \<Rightarrow> string \<Rightarrow> bool" where
  "startsWith s p = (take (length p) s = p)"

text \<open>\<open>s.replace(/\\/g, '/')\<close>\<close>

definition replace_backslashes :: "string \<Rightarrow> string" where
  "replace_backslashes s = map (\<lambda>c. if c = backslash then slash else c) s"

text \<open>\<open>s.split('/')\<close>: never empty, \<open>''.split('/')\<close> is \<open>['']\<close>.\<close>

fun split_slash :: "string \<Rightarrow> string list" where
  "split_slash [] = [[]]"
| "split_slash (c # cs) =
     (if c = slash then [] # split_slash cs
      else (case split_slash cs of
              [] \<Rightarrow> [[c]]
            | seg # segs \<Rightarrow> (c # seg) # segs))"

fun join_slash :: "string list \<Rightarrow> string" where
  "join_slash [] = []"
| "join_slash [seg] = seg"
| "join_slash (seg # segs) = seg @ slash # join_slash segs"

definition strip_trailing_slashes :: "string \<Rightarrow> string" where
  "strip_trailing_slashes p = rev (dropWhile (\<lambda>c. c = slash) (rev p))"

text \<open>\<open>path.basename\<close>: the last segment, trailing separators ignored.\<close>

definition basename :: "path \<Rightarrow> string" where
  "basename p = rev (takeWhile (\<lambda>c. c \<noteq> slash) (rev (strip_trailing_slashes p)))"

text \<open>
  \<open>path.dirname\<close>: everything before the separator that precedes the last segment;
  \<open>.\<close> (or \<open>/\<close> for an absolute path) when there is none.
\<close>

definition dirname :: "path \<Rightarrow> path" where
  "dirname p =
     (case p of
        [] \<Rightarrow> ''.''
      | c # cs \<Rightarrow>
          (case dropWhile (\<lambda>x. x \<noteq> slash) (dropWhile (\<lambda>x. x = slash) (rev cs)) of
             [] \<Rightarrow> (if c = slash then ''/'' else ''.'')
           | _ # r \<Rightarrow> (if c = slash \<and> r = [] then ''//'' else c # rev r)))"

text \<open>
  \<open>path.extname\<close>: from the last dot of the base name on; empty when the base name has
  no dot, starts with its only dot, or is \<open>..\<close>.
\<close>

definition extname :: "path \<Rightarrow> string" where
  "extname p =
     (let b = basename p in
      if CHR ''.'' \<notin> set b then []
      else if tl (dropWhile (\<lambda>c. c \<noteq> CHR ''.'') (rev b)) = [] then []
      else if b = ''..'' then []
      else CHR ''.'' # rev (takeWhile (\<lambda>c. c \<noteq> CHR ''.'') (rev b)))"

text \<open>
  \<open>String.prototype.toLowerCase\<close>. A character of the model is a code unit below 256,
  and the capital letters among these are the 26 ASCII ones and the 30 of Latin-1
  (\<open>0xC0\<close> to \<open>0xDE\<close> without the multiplication sign \<open>0xD7\<close>), each 32 below its
  small letter. Code units from 256 on cannot be written in a \<open>string\<close>; among them is
  the Kelvin sign \<open>U+212A\<close>, which JavaScript lowers to \<open>k\<close>.
\<close>

definition capital_letters :: string where
  "capital_letters =
     ''ABCDEFGHIJKLMNOPQRSTUVWXYZ''
     @ [CHR 0xC0, CHR 0xC1, CHR 0xC2, CHR 0xC3, CHR 0xC4, CHR 0xC5, CHR 0xC6, CHR 0xC7,
        CHR 0xC8, CHR 0xC9, CHR 0xCA, CHR 0xCB, CHR 0xCC, CHR 0xCD, CHR 0xCE, CHR 0xCF,
        CHR 0xD0, CHR 0xD1, CHR 0xD2, CHR 0xD3, CHR 0xD4, CHR 0xD5, CHR 0xD6,
        CHR 0xD8, CHR 0xD9, CHR 0xDA, CHR 0xDB, CHR 0xDC, CHR 0xDD, CHR 0xDE]"

definition small_letters :: string where
  "small_letters =
     ''abcdefghijklmnopqrstuvwxyz''
     @ [CHR 0xE0, CHR 0xE1, CHR 0xE2, CHR 0xE3, CHR 0xE4, CHR 0xE5, CHR 0xE6, CHR 0xE7,
        CHR 0xE8, CHR 0xE9, CHR 0xEA, CHR 0xEB, CHR 0xEC, CHR 0xED, CHR 0xEE, CHR 0xEF,
        CHR 0xF0, CHR 0xF1, CHR 0xF2, CHR 0xF3, CHR 0xF4, CHR 0xF5, CHR 0xF6,
        CHR 0xF8, CHR 0xF9, CHR 0xFA, CHR 0xFB, CHR 0xFC, CHR 0xFD, CHR 0xFE]"

definition lower_char :: "char \<Rightarrow> char" where
  "lower_char c =
     (case map_of (zip capital_letters small_letters) c of
        None \<Rightarrow> c
      | Some l \<Rightarrow> l)"

definition toLowerCase :: "string \<Rightarrow> string" where
  "toLowerCase s = map lower_char s"

text \<open>
  The segment stack of \<open>path.normalize\<close>: empty and \<open>.\<close> segments are dropped, \<open>..\<close>
  removes the segment before it, and is kept at the front of a relative path.
\<close>

fun normalize_segments :: "bool \<Rightarrow> string list \<Rightarrow> string list \<Rightarrow> string list" where
  "normalize_segments keep_up acc [] = rev acc"
| "normalize_segments keep_up acc (seg # segs) =
     (if seg = [] \<or> seg = ''.'' then normalize_segments keep_up acc segs
      else if seg = ''..'' then
        (case acc of
           [] \<Rightarrow> normalize_segments keep_up (if keep_up then [seg] else []) segs
         | prev # rest \<Rightarrow>
             if prev = ''..'' then normalize_segments keep_up (seg # acc) segs
             else normalize_segments keep_up rest segs)
      else normalize_segments keep_up (seg # acc) segs)"

definition isAbsolute :: "path \<Rightarrow> bool" where
  "isAbsolute p = (p \<noteq> [] \<and> hd p = slash)"

definition path_normalize :: "path \<Rightarrow> path" where
  "path_normalize p =
     (if p = [] then ''.''
      else
        let absolute = isAbsolute p;
            trailing = (last p = slash);
            body = join_slash (normalize_segments (\<not> absolute) [] (split_slash p))
        in if body = [] then (if absolute then ''/'' else if trailing then ''./'' else ''.'')
           else (if absolute then [slash] else []) @ body @ (if trailing then [slash] else []))"

text \<open>\<open>path.join(a, b)\<close>: the non-empty operands joined by a separator, then normalised.\<close>

definition path_join :: "path \<Rightarrow> path \<Rightarrow> path" where
  "path_join a b =
     (if a = [] \<and> b = [] then ''.''
      else if a = [] then path_normalize b
      else if b = [] then path_normalize a
      else path_normalize (a @ slash # b))"

text \<open>The segments of a resolved absolute path: what the file-system calls follow.\<close>

definition path_segments :: "path \<Rightarrow> string list" where
  "path_segments p = normalize_segments False [] (split_slash p)"

fun strip_common :: "string list \<Rightarrow> string list \<Rightarrow> string list \<times> string list" where
  "strip_common (x # xs) (y # ys) =
     (if x = y then strip_common xs ys else (x # xs, y # ys))"
| "strip_common xs ys = (xs, ys)"

text \<open>\<open>path.relative(from, to)\<close>: one \<open>..\<close> for each segment of the first
  operand below the common directory, then the rest of the second.\<close>

definition path_relative :: "path \<Rightarrow> path \<Rightarrow> path" where
  "path_relative src dst =
     (case strip_common (path_segments src) (path_segments dst) of
        (up, down) \<Rightarrow> join_slash (replicate (length up) ''..'' @ down))"

section \<open>Settings and path policy\<close>

datatype sync_mode = All | Include

record settings =
  syncFolderPath :: path
  syncOnSave :: bool
  excludedFolders :: "path list"
  includedFolders :: "path list"
  externalIncludedFolders :: "path list"
  syncMode :: sync_mode

text \<open>\<open>FileSync.isBinaryFileType\<close>\<close>

definition binaryExtensions :: "string list" where
  "binaryExtensions =
     [''.png'', ''.jpg'', ''.jpeg'', ''.gif'', ''.bmp'', ''.tiff'', ''.webp'',
      ''.pdf'', ''.doc'', ''.docx'', ''.xls'', ''.xlsx'', ''.ppt'', ''.pptx'',
      ''.zip'', ''.rar'', ''.7z'', ''.tar'', ''.gz'',
      ''.mp3'', ''.wav'', ''.ogg'', ''.flac'', ''.m4a'',
      ''.mp4'', ''.avi'', ''.mov'', ''.wmv'', ''.mkv'', ''.webm'',
      ''.exe'', ''.dll'', ''.so'', ''.dylib'',
      ''.ttf'', ''.otf'', ''.woff'', ''.woff2'']"

definition isBinaryFileType :: "path \<Rightarrow> bool" where
  "isBinaryFileType filePath = (toLowerCase (extname filePath) \<in> set binaryExtensions)"

text \<open>\<open>FileSync.isIncluded\<close>: the loop returns at the first folder that matches.\<close>

fun isIncluded_loop :: "path list \<Rightarrow> path \<Rightarrow> bool" where
  "isIncluded_loop [] filePath = False"
| "isIncluded_loop (includedFolder # rest) filePath =
     (if includedFolder = [] then True
      else if filePath = includedFolder \<or> startsWith filePath (includedFolder @ ''/'') then True
      else isIncluded_loop rest filePath)"

definition isIncluded :: "settings \<Rightarrow> path \<Rightarrow> bool" where
  "isIncluded s filePath = isIncluded_loop (includedFolders s) filePath"

text \<open>\<open>FileSync.isExternalIncluded\<close>\<close>

fun isExternalIncluded_loop :: "path list \<Rightarrow> path \<Rightarrow> bool" where
  "isExternalIncluded_loop [] filePath = False"
| "isExternalIncluded_loop (externalFolder # rest) filePath =
     (let folderName = basename externalFolder in
      if filePath = folderName \<or> startsWith filePath (folderName @ ''/'') then True
      else isExternalIncluded_loop rest filePath)"

definition isExternalIncluded :: "settings \<Rightarrow> path \<Rightarrow> bool" where
  "isExternalIncluded s filePath = isExternalIncluded_loop (externalIncludedFolders s) filePath"

text \<open>\<open>FileSync.isExcluded\<close>\<close>

definition isExcluded :: "settings \<Rightarrow> path \<Rightarrow> bool" where
  "isExcluded s filePath =
     list_ex (\<lambda>folder. filePath = folder
                       \<or> startsWith filePath (folder @ ''/'')
                       \<or> startsWith filePath (folder @ [backslash]))
             (excludedFolders s)"

text \<open>\<open>FileSync.shouldSyncFile\<close>\<close>

definition shouldSyncFile :: "settings \<Rightarrow> path \<Rightarrow> bool" where
  "shouldSyncFile s filePath =
     (if syncMode s = All then \<not> isExcluded s filePath
      else isIncluded s filePath \<or> isExternalIncluded s filePath)"

section \<open>The two stores\<close>

subsection \<open>Errors and results\<close>

text \<open>
  The code tells errors apart only by \<open>error.message.includes("already exists")\<close>:
  \<open>AlreadyExists\<close> is an error whose message contains that text, \<open>IOError\<close> any other.
\<close>

datatype error = AlreadyExists | IOError

datatype 'a res = Ok 'a | Throw error

subsection \<open>The managed store\<close>

text \<open>
  What \<open>getAbstractFileByPath\<close> returns: a \<open>TFile\<close>, a \<open>TFolder\<close>, or nothing.
  The store is an association list from paths to entries, so that the files below a
  folder can be enumerated.
\<close>

datatype vnode = TFile content | TFolder

type_synonym vault = "(path \<times> vnode) list"

definition getAbstractFileByPath :: "vault \<Rightarrow> path \<Rightarrow> vnode option" where
  "getAbstractFileByPath v p = map_of v p"

definition isTFile :: "vnode option \<Rightarrow> bool" where
  "isTFile n = (case n of Some (TFile _) \<Rightarrow> True | _ \<Rightarrow> False)"

definition isTFolder :: "vnode option \<Rightarrow> bool" where
  "isTFolder n = (n = Some TFolder)"

text \<open>
  Modelled from the spec: the host's store primitives are not part of the sources. The
  contract of section 6 is followed: create and createFolder fail with an
  already-exists error when the path is taken, modify and read need an existing file,
  trash moves an item, with everything below it, out of the store.
\<close>

definition store_create :: "vault \<Rightarrow> path \<Rightarrow> content \<Rightarrow> vault res" where
  "store_create v p c =
     (if map_of v p \<noteq> None then Throw AlreadyExists else Ok (AList.update p (TFile c) v))"

definition store_createFolder :: "vault \<Rightarrow> path \<Rightarrow> vault res" where
  "store_createFolder v p =
     (if map_of v p \<noteq> None then Throw AlreadyExists else Ok (AList.update p TFolder v))"

definition store_modify :: "vault \<Rightarrow> path \<Rightarrow> content \<Rightarrow> vault res" where
  "store_modify v p c =
     (if isTFile (map_of v p) then Ok (AList.update p (TFile c) v) else Throw IOError)"

definition store_read :: "vault \<Rightarrow> path \<Rightarrow> content res" where
  "store_read v p = (case map_of v p of Some (TFile c) \<Rightarrow> Ok c | _ \<Rightarrow> Throw IOError)"

definition store_trash :: "vault \<Rightarrow> path \<Rightarrow> vault res" where
  "store_trash v p =
     (if map_of v p = None then Throw IOError
      else Ok (filter (\<lambda>(q, n). q \<noteq> p \<and> \<not> startsWith q (p @ ''/'')) v))"

subsection \<open>The external store\<close>

text \<open>
  The external file system is a tree below the root \<open>/\<close>. A directory lists its
  entries by name, in the order \<open>readdir\<close> returns them. \<open>DeniedFile\<close> and
  \<open>DeniedDir\<close> are a file that cannot be read and a directory that cannot be listed
  or entered (permission denied); \<open>Special\<close> is an entry that is neither a regular file
  nor a directory.
\<close>

datatype fsnode =
    File content
  | Dir "(string \<times> fsnode) list"
  | DeniedFile
  | DeniedDir
  | Special

definition isDirectory :: "fsnode \<Rightarrow> bool" where
  "isDirectory n = (case n of Dir _ \<Rightarrow> True | DeniedDir \<Rightarrow> True | _ \<Rightarrow> False)"

definition isFile :: "fsnode \<Rightarrow> bool" where
  "isFile n = (case n of File _ \<Rightarrow> True | DeniedFile \<Rightarrow> True | _ \<Rightarrow> False)"

fun fs_lookup :: "fsnode \<Rightarrow> string list \<Rightarrow> fsnode option" where
  "fs_lookup n [] = Some n"
| "fs_lookup (Dir es) (seg # segs) =
     (case map_of es seg of None \<Rightarrow> None | Some c \<Rightarrow> fs_lookup c segs)"
| "fs_lookup _ (seg # segs) = None"

text \<open>Put a node at a path whose parent directory exists; \<open>None\<close> is an error.\<close>

fun fs_put :: "fsnode \<Rightarrow> string list \<Rightarrow> fsnode \<Rightarrow> fsnode option" where
  "fs_put n [] new = None"
| "fs_put (Dir es) [seg] new = Some (Dir (AList.update seg new es))"
| "fs_put (Dir es) (seg # segs) new =
     (case map_of es seg of
        None \<Rightarrow> None
      | Some c \<Rightarrow>
          (case fs_put c segs new of
             None \<Rightarrow> None
           | Some c' \<Rightarrow> Some (Dir (AList.update seg c' es))))"
| "fs_put _ (seg # segs) new = None"

text \<open>Remove the entry at a path; \<open>None\<close> when there is none.\<close>

fun fs_remove :: "fsnode \<Rightarrow> string list \<Rightarrow> fsnode option" where
  "fs_remove n [] = None"
| "fs_remove (Dir es) [seg] =
     (if map_of es seg = None then None else Some (Dir (AList.delete seg es)))"
| "fs_remove (Dir es) (seg # segs) =
     (case map_of es seg of
        None \<Rightarrow> None
      | Some c \<Rightarrow>
          (case fs_remove c segs of
             None \<Rightarrow> None
           | Some c' \<Rightarrow> Some (Dir (AList.update seg c' es))))"
| "fs_remove _ (seg # segs) = None"

text \<open>\<open>mkdir\<close> with \<open>recursive: true\<close>: creates what is missing along the path,
  fails when a component is not a directory that can be entered.\<close>

fun fs_mkdirp :: "fsnode \<Rightarrow> string list \<Rightarrow> fsnode option" where
  "fs_mkdirp (Dir es) [] = Some (Dir es)"
| "fs_mkdirp DeniedDir [] = Some DeniedDir"
| "fs_mkdirp (Dir es) (seg # segs) =
     (case map_of es seg of
        None \<Rightarrow>
          (case fs_mkdirp (Dir []) segs of
             None \<Rightarrow> None
           | Some c \<Rightarrow> Some (Dir (es @ [(seg, c)])))
      | Some c \<Rightarrow>
          (case fs_mkdirp c segs of
             None \<Rightarrow> None
           | Some c' \<Rightarrow> Some (Dir (AList.update seg c' es))))"
| "fs_mkdirp _ _ = None"

text \<open>\<open>fs.existsSync\<close>; it is false for the empty string, which names no file.\<close>

definition fs_existsSync :: "fsnode \<Rightarrow> path \<Rightarrow> bool" where
  "fs_existsSync root p = (p \<noteq> [] \<and> fs_lookup root (path_segments p) \<noteq> None)"

definition fs_mkdirSync :: "fsnode \<Rightarrow> path \<Rightarrow> fsnode res" where
  "fs_mkdirSync root p =
     (case fs_mkdirp root (path_segments p) of None \<Rightarrow> Throw IOError | Some r \<Rightarrow> Ok r)"

definition fs_writeFile :: "fsnode \<Rightarrow> path \<Rightarrow> content \<Rightarrow> fsnode res" where
  "fs_writeFile root p c =
     (case fs_lookup root (path_segments p) of
        Some (Dir _) \<Rightarrow> Throw IOError
      | Some DeniedDir \<Rightarrow> Throw IOError
      | Some DeniedFile \<Rightarrow> Throw IOError
      | _ \<Rightarrow>
          (case fs_put root (path_segments p) (File c) of
             None \<Rightarrow> Throw IOError
           | Some r \<Rightarrow> Ok r))"

definition fs_readFile :: "fsnode \<Rightarrow> path \<Rightarrow> content res" where
  "fs_readFile root p =
     (case fs_lookup root (path_segments p) of Some (File c) \<Rightarrow> Ok c | _ \<Rightarrow> Throw IOError)"

definition fs_unlinkSync :: "fsnode \<Rightarrow> path \<Rightarrow> fsnode res" where
  "fs_unlinkSync root p =
     (case fs_lookup root (path_segments p) of
        None \<Rightarrow> Throw IOError
      | Some (Dir _) \<Rightarrow> Throw IOError
      | Some DeniedDir \<Rightarrow> Throw IOError
      | Some _ \<Rightarrow>
          (case fs_remove root (path_segments p) of
             None \<Rightarrow> Throw IOError
           | Some r \<Rightarrow> Ok r))"

text \<open>\<open>rmdirSync\<close> without options removes an empty directory only.\<close>

definition fs_rmdirSync :: "fsnode \<Rightarrow> path \<Rightarrow> fsnode res" where
  "fs_rmdirSync root p =
     (case fs_lookup root (path_segments p) of
        Some (Dir []) \<Rightarrow>
          (case fs_remove root (path_segments p) of
             None \<Rightarrow> Throw IOError
           | Some r \<Rightarrow> Ok r)
      | _ \<Rightarrow> Throw IOError)"

text \<open>\<open>rmdirSync\<close> with \<open>recursive: true\<close> removes the directory with its content.\<close>

definition fs_rmdirSync_recursive :: "fsnode \<Rightarrow> path \<Rightarrow> fsnode res" where
  "fs_rmdirSync_recursive root p =
     (case fs_lookup root (path_segments p) of
        Some (Dir _) \<Rightarrow>
          (case fs_remove root (path_segments p) of
             None \<Rightarrow> Throw IOError
           | Some r \<Rightarrow> Ok r)
      | _ \<Rightarrow> Throw IOError)"

definition is_prefix :: "string list \<Rightarrow> string list \<Rightarrow> bool" where
  "is_prefix xs ys = (take (length xs) ys = xs)"

text \<open>
  \<open>renameSync\<close>: the source must exist and must not contain the target; a file does
  not replace a directory, a directory replaces only an empty directory.
\<close>

definition fs_renameSync :: "fsnode \<Rightarrow> path \<Rightarrow> path \<Rightarrow> fsnode res" where
  "fs_renameSync root old new =
     (let src = path_segments old; dst = path_segments new in
      case fs_lookup root src of
        None \<Rightarrow> Throw IOError
      | Some n \<Rightarrow>
          if src = dst then Ok root
          else if is_prefix src dst then Throw IOError
          else if (case fs_lookup root dst of
                     None \<Rightarrow> False
                   | Some (Dir es) \<Rightarrow> \<not> (isDirectory n \<and> es = [])
                   | Some DeniedDir \<Rightarrow> True
                   | Some _ \<Rightarrow> isDirectory n)
          then Throw IOError
          else (case fs_remove root src of
                  None \<Rightarrow> Throw IOError
                | Some r \<Rightarrow>
                    (case fs_put r dst n of
                       None \<Rightarrow> Throw IOError
                     | Some r' \<Rightarrow> Ok r')))"

definition fs_copyFileSync :: "fsnode \<Rightarrow> path \<Rightarrow> path \<Rightarrow> fsnode res" where
  "fs_copyFileSync root src dst =
     (case fs_readFile root src of
        Throw e \<Rightarrow> Throw e
      | Ok c \<Rightarrow> fs_writeFile root dst c)"

definition fs_readdir :: "fsnode option \<Rightarrow> (string \<times> fsnode) list res" where
  "fs_readdir n = (case n of Some (Dir es) \<Rightarrow> Ok es | _ \<Rightarrow> Throw IOError)"

section \<open>The engine state\<close>

text \<open>
  Every call that reads or writes content, or changes one of the stores, is recorded
  in order. Lookups (\<open>getAbstractFileByPath\<close>, \<open>existsSync\<close>, \<open>stat\<close>,
  \<open>readdir\<close>) are not recorded.
\<close>

datatype call =
    VaultRead path
  | VaultReadBinary path
  | VaultCreate path content
  | VaultCreateBinary path content
  | VaultModify path content
  | VaultModifyBinary path content
  | VaultCreateFolder path
  | VaultTrash path
  | FsReadFile path
  | FsReadFileUtf8 path
  | FsWriteFile path content
  | FsWriteFileUtf8 path content
  | FsMkdir path
  | FsRename path path
  | FsUnlink path
  | FsRmdir path
  | FsRmdirRecursive path
  | FsCopyFile path path
  | ConfirmationModal path

text \<open>A callback handed to \<open>setTimeout\<close>.\<close>

datatype task =
    ClearGuard
  | ExternalFileChange path path

text \<open>A watch handle: the recursive one on the root, or one on a single directory.\<close>

datatype watcher = RecursiveWatch path | DirectoryWatch path

record world =
  vault :: vault
  ext :: fsnode
  isProcessingExternalChange :: bool
  timers :: "(nat \<times> task) list"
  fileWatchers :: "watcher list"
  calls :: "call list"

definition record_call :: "call \<Rightarrow> world \<Rightarrow> world" where
  "record_call c w = w\<lparr>calls := calls w @ [c]\<rparr>"

definition setTimeout :: "task \<Rightarrow> nat \<Rightarrow> world \<Rightarrow> world" where
  "setTimeout t ms w = w\<lparr>timers := timers w @ [(ms, t)]\<rparr>"

definition setProcessingExternalChange :: "bool \<Rightarrow> world \<Rightarrow> world" where
  "setProcessingExternalChange b w = w\<lparr>isProcessingExternalChange := b\<rparr>"

definition getProcessingExternalChange :: "world \<Rightarrow> bool" where
  "getProcessingExternalChange w = isProcessingExternalChange w"

text \<open>Sequencing of calls that may throw, and \<open>try ... catch\<close>.\<close>

definition io_bind ::
  "'a res \<times> world \<Rightarrow> ('a \<Rightarrow> world \<Rightarrow> 'b res \<times> world) \<Rightarrow> 'b res \<times> world" where
  "io_bind r f = (case r of (Ok x, w) \<Rightarrow> f x w | (Throw e, w) \<Rightarrow> (Throw e, w))"

definition io_catch ::
  "'a res \<times> world \<Rightarrow> (error \<Rightarrow> world \<Rightarrow> 'a res \<times> world) \<Rightarrow> 'a res \<times> world" where
  "io_catch r h = (case r of (Ok x, w) \<Rightarrow> (Ok x, w) | (Throw e, w) \<Rightarrow> h e w)"

text \<open>A \<open>catch\<close> block that only logs to the console.\<close>

definition swallow :: "unit res \<times> world \<Rightarrow> world" where
  "swallow r = snd r"

subsection \<open>Calls on the managed store\<close>

definition vault_change :: "call \<Rightarrow> vault res \<Rightarrow> world \<Rightarrow> unit res \<times> world" where
  "vault_change c r w =
     (case r of
        Throw e \<Rightarrow> (Throw e, record_call c w)
      | Ok v \<Rightarrow> (Ok (), (record_call c w)\<lparr>vault := v\<rparr>))"

definition vault_read :: "bool \<Rightarrow> path \<Rightarrow> world \<Rightarrow> content res \<times> world" where
  "vault_read binary p w =
     (store_read (vault w) p,
      record_call (if binary then VaultReadBinary p else VaultRead p) w)"

definition vault_create :: "bool \<Rightarrow> path \<Rightarrow> content \<Rightarrow> world \<Rightarrow> unit res \<times> world" where
  "vault_create binary p c w =
     vault_change (if binary then VaultCreateBinary p c else VaultCreate p c)
       (store_create (vault w) p c) w"

definition vault_modify :: "bool \<Rightarrow> path \<Rightarrow> content \<Rightarrow> world \<Rightarrow> unit res \<times> world" where
  "vault_modify binary p c w =
     vault_change (if binary then VaultModifyBinary p c else VaultModify p c)
       (store_modify (vault w) p c) w"

definition vault_createFolder :: "path \<Rightarrow> world \<Rightarrow> unit res \<times> world" where
  "vault_createFolder p w = vault_change (VaultCreateFolder p) (store_createFolder (vault w) p) w"

definition vault_trash :: "path \<Rightarrow> world \<Rightarrow> unit res \<times> world" where
  "vault_trash p w = vault_change (VaultTrash p) (store_trash (vault w) p) w"

subsection \<open>Calls on the external store\<close>

definition fs_change :: "call \<Rightarrow> fsnode res \<Rightarrow> world \<Rightarrow> unit res \<times> world" where
  "fs_change c r w =
     (case r of
        Throw e \<Rightarrow> (Throw e, record_call c w)
      | Ok root \<Rightarrow> (Ok (), (record_call c w)\<lparr>ext := root\<rparr>))"

definition existsSync :: "world \<Rightarrow> path \<Rightarrow> bool" where
  "existsSync w p = fs_existsSync (ext w) p"

definition mkdirSync :: "path \<Rightarrow> world \<Rightarrow> unit res \<times> world" where
  "mkdirSync p w = fs_change (FsMkdir p) (fs_mkdirSync (ext w) p) w"

definition writeFile :: "bool \<Rightarrow> path \<Rightarrow> content \<Rightarrow> world \<Rightarrow> unit res \<times> world" where
  "writeFile binary p c w =
     fs_change (if binary then FsWriteFile p c else FsWriteFileUtf8 p c)
       (fs_writeFile (ext w) p c) w"

definition renameSync :: "path \<Rightarrow> path \<Rightarrow> world \<Rightarrow> unit res \<times> world" where
  "renameSync old new w = fs_change (FsRename old new) (fs_renameSync (ext w) old new) w"

definition unlinkSync :: "path \<Rightarrow> world \<Rightarrow> unit res \<times> world" where
  "unlinkSync p w = fs_change (FsUnlink p) (fs_unlinkSync (ext w) p) w"

definition rmdirSync :: "path \<Rightarrow> world \<Rightarrow> unit res \<times> world" where
  "rmdirSync p w = fs_change (FsRmdir p) (fs_rmdirSync (ext w) p) w"

definition rmdirSync_recursive :: "path \<Rightarrow> world \<Rightarrow> unit res \<times> world" where
  "rmdirSync_recursive p w =
     fs_change (FsRmdirRecursive p) (fs_rmdirSync_recursive (ext w) p) w"

definition copyFileSync :: "path \<Rightarrow> path \<Rightarrow> world \<Rightarrow> unit res \<times> world" where
  "copyFileSync src dst w = fs_change (FsCopyFile src dst) (fs_copyFileSync (ext w) src dst) w"

text \<open>
  Reading an entry that a directory listing returned. A file holds its content as text:
  the read with encoding \<open>utf8\<close> and the read of the bytes return the same content, as
  they do for a file that is valid UTF-8.
\<close>

definition read_node :: "bool \<Rightarrow> path \<Rightarrow> fsnode option \<Rightarrow> world \<Rightarrow> content res \<times> world" where
  "read_node binary p n w =
     ((case n of Some (File c) \<Rightarrow> Ok c | _ \<Rightarrow> Throw IOError),
      record_call (if binary then FsReadFile p else FsReadFileUtf8 p) w)"

definition node_at :: "world \<Rightarrow> path \<Rightarrow> fsnode option" where
  "node_at w p = fs_lookup (ext w) (path_segments p)"

section \<open>FileSync\<close>

text \<open>\<open>FileSync.ensureVaultDirectory\<close>\<close>

fun ensure_loop :: "string list \<Rightarrow> path \<Rightarrow> world \<Rightarrow> unit res \<times> world" where
  "ensure_loop [] currentPath w = (Ok (), w)"
| "ensure_loop (dir # dirs) currentPath w =
     (let currentPath' = (if currentPath \<noteq> [] then currentPath @ ''/'' @ dir else dir) in
      if getAbstractFileByPath (vault w) currentPath' = None then
        (case vault_createFolder currentPath' w of
           (Throw e, w1) \<Rightarrow>
             if e \<noteq> AlreadyExists then (Throw e, w1)
             else ensure_loop dirs currentPath' w1
         | (Ok _, w1) \<Rightarrow> ensure_loop dirs currentPath' w1)
      else ensure_loop dirs currentPath' w)"

definition ensureVaultDirectory :: "path \<Rightarrow> world \<Rightarrow> unit res \<times> world" where
  "ensureVaultDirectory dirPath w = ensure_loop (split_slash dirPath) [] w"

text \<open>\<open>FileSync.getExternalPath\<close>; \<open>None\<close> is \<open>undefined\<close>.\<close>

fun getExternalPath_loop :: "path list \<Rightarrow> path \<Rightarrow> path option" where
  "getExternalPath_loop [] vaultPath = None"
| "getExternalPath_loop (externalFolder # rest) vaultPath =
     (let folderName = basename externalFolder in
      if vaultPath = folderName \<or> startsWith vaultPath (folderName @ ''/'') then
        (let relativeToParent = drop (length folderName + 1) vaultPath
         in Some (path_join externalFolder relativeToParent))
      else getExternalPath_loop rest vaultPath)"

definition getExternalPath :: "settings \<Rightarrow> path \<Rightarrow> path option" where
  "getExternalPath s vaultPath =
     (if syncFolderPath s = [] then None
      else (case getExternalPath_loop (externalIncludedFolders s) vaultPath of
              Some p \<Rightarrow> Some p
            | None \<Rightarrow> Some (path_join (syncFolderPath s) vaultPath)))"

text \<open>
  The comparison and write that \<open>handleExternalFileChange\<close> and
  \<open>syncDirectoryFromExternal\<close> both spell out, once for binary and once for text
  content: modify an existing file when the content differs, otherwise create it, and on
  an already-exists error modify what is there now.
\<close>

definition modify_if_different :: "bool \<Rightarrow> path \<Rightarrow> content \<Rightarrow> world \<Rightarrow> unit res \<times> world" where
  "modify_if_different binary vaultPath content w =
     io_bind (vault_read binary vaultPath w)
       (\<lambda>currentContent w1.
          if currentContent \<noteq> content then vault_modify binary vaultPath content w1
          else (Ok (), w1))"

definition write_to_vault ::
  "bool \<Rightarrow> path \<Rightarrow> content \<Rightarrow> vnode option \<Rightarrow> world \<Rightarrow> unit res \<times> world" where
  "write_to_vault binary vaultPath content existingFile w =
     (if isTFile existingFile then modify_if_different binary vaultPath content w
      else
        let parentDir = dirname vaultPath in
        io_bind (if parentDir \<noteq> [] \<and> parentDir \<noteq> ''.''
                 then ensureVaultDirectory parentDir w else (Ok (), w))
          (\<lambda>_ w1.
             io_catch (vault_create binary vaultPath content w1)
               (\<lambda>createError w2.
                  if createError = AlreadyExists then
                    (let fileAfterError = getAbstractFileByPath (vault w2) vaultPath in
                     if isTFile fileAfterError
                     then modify_if_different binary vaultPath content w2
                     else (Ok (), w2))
                  else (Throw createError, w2))))"

text \<open>The managed path that \<open>handleExternalFileChange\<close> computes.\<close>

fun vaultPath_loop :: "path list \<Rightarrow> path \<Rightarrow> path \<Rightarrow> path" where
  "vaultPath_loop [] fullPath vaultPath = vaultPath"
| "vaultPath_loop (externalFolder # rest) fullPath vaultPath =
     (if startsWith fullPath externalFolder then
        (let folderName = basename externalFolder;
             relativeToExternal = path_relative externalFolder fullPath
         in if relativeToExternal \<noteq> []
            then replace_backslashes (path_join folderName relativeToExternal)
            else folderName)
      else vaultPath_loop rest fullPath vaultPath)"

text \<open>\<open>FileSync.handleExternalFileChange\<close>\<close>

definition handleExternalFileChange :: "settings \<Rightarrow> path \<Rightarrow> path \<Rightarrow> world \<Rightarrow> world" where
  "handleExternalFileChange s fullPath relativePath w =
     (let w0 = setProcessingExternalChange True w;
          w' =
            (if \<not> shouldSyncFile s relativePath then w0
             else
               let vaultPath = vaultPath_loop (externalIncludedFolders s) fullPath relativePath;
                   existingFile = getAbstractFileByPath (vault w0) vaultPath;
                   isBinaryFile = isBinaryFileType vaultPath
               in swallow
                    (io_bind (read_node isBinaryFile fullPath (node_at w0 fullPath) w0)
                       (\<lambda>content w1.
                          write_to_vault isBinaryFile vaultPath content existingFile w1)))
      in setProcessingExternalChange False w')"

text \<open>\<open>FileSync.moveFileToTrash\<close>\<close>

definition moveFileToTrash :: "path \<Rightarrow> world \<Rightarrow> world" where
  "moveFileToTrash filePath w =
     (if getAbstractFileByPath (vault w) filePath \<noteq> None
      then swallow (vault_trash filePath w)
      else w)"

text \<open>\<open>FileSync.handleExternalFileDeletion\<close>\<close>

definition handleExternalFileDeletion :: "settings \<Rightarrow> path \<Rightarrow> world \<Rightarrow> world" where
  "handleExternalFileDeletion s relativePath w =
     (let w0 = setProcessingExternalChange True w;
          w' =
            (if \<not> shouldSyncFile s relativePath then w0
             else if isTFile (getAbstractFileByPath (vault w0) relativePath)
             then moveFileToTrash relativePath w0
             else w0)
      in setTimeout ClearGuard 500 w')"

text \<open>\<open>FileSync.syncFile\<close>; the argument is the path of the managed file.\<close>

definition syncFile :: "settings \<Rightarrow> path \<Rightarrow> world \<Rightarrow> world" where
  "syncFile s filePath w =
     (if \<not> shouldSyncFile s filePath then w
      else
        (case getExternalPath s filePath of
           None \<Rightarrow> w
         | Some destPath \<Rightarrow>
             let destDir = dirname destPath;
                 isBinaryFile = isBinaryFileType filePath
             in swallow
                  (io_bind (if \<not> existsSync w destDir then mkdirSync destDir w else (Ok (), w))
                     (\<lambda>_ w1.
                        io_bind (vault_read isBinaryFile filePath w1)
                          (\<lambda>content w2. writeFile isBinaryFile destPath content w2)))))"

text \<open>
  \<open>FileSync.handleFileDeletion\<close>. \<open>confirmed\<close> is the answer the user gives in the
  confirmation dialog.
\<close>

definition handleFileDeletion :: "settings \<Rightarrow> bool \<Rightarrow> path \<Rightarrow> world \<Rightarrow> world" where
  "handleFileDeletion s confirmed filePath w =
     (case getExternalPath s filePath of
        None \<Rightarrow> w
      | Some externalPath \<Rightarrow>
          if existsSync w externalPath then
            (let w1 = record_call (ConfirmationModal externalPath) w in
             if confirmed then swallow (unlinkSync externalPath w1) else w1)
          else w)"

text \<open>\<open>FileSync.syncFolder\<close>\<close>

definition syncFolder :: "settings \<Rightarrow> path \<Rightarrow> world \<Rightarrow> world" where
  "syncFolder s folderPath w =
     (if \<not> shouldSyncFile s folderPath then w
      else
        (case getExternalPath s folderPath of
           None \<Rightarrow> w
         | Some destPath \<Rightarrow>
             if \<not> existsSync w destPath then swallow (mkdirSync destPath w) else w))"

text \<open>
  \<open>FileSync.handleFileRename\<close>. The result is \<open>None\<close> for \<open>undefined\<close>, which the
  caller's \<open>!renamed\<close> treats like \<open>false\<close>.
\<close>

definition handleFileRename :: "settings \<Rightarrow> path \<Rightarrow> path \<Rightarrow> world \<Rightarrow> bool option \<times> world" where
  "handleFileRename s oldPath newPath w =
     (case (getExternalPath s oldPath, getExternalPath s newPath) of
        (Some oldExternalPath, Some newExternalPath) \<Rightarrow>
          if existsSync w oldExternalPath then
            (let newParentDir = dirname newExternalPath in
             case io_bind (if \<not> existsSync w newParentDir
                           then mkdirSync newParentDir w else (Ok (), w))
                    (\<lambda>_ w1. renameSync oldExternalPath newExternalPath w1) of
               (Ok _, w') \<Rightarrow> (Some True, w')
             | (Throw e, w') \<Rightarrow> (Some False, w'))
          else (Some False, w)
      | _ \<Rightarrow> (None, w))"

section \<open>DirectorySync\<close>

text \<open>
  The recursive walks take, next to the path of a directory, what the external store
  holds at that path (\<open>None\<close> when nothing is there): the inbound walks change the
  managed store only, so the node a listing returned is the node found when the walk
  reaches it.
\<close>

text \<open>
  \<open>DirectorySync.syncDirectoryFromExternal\<close> and its loop over the entries. An error of
  one file is caught in the loop; any other error is logged and thrown again.
\<close>

fun syncDirectoryFromExternal ::
    "settings \<Rightarrow> fsnode option \<Rightarrow> path \<Rightarrow> path \<Rightarrow> world \<Rightarrow> unit res \<times> world"
  and sync_entries ::
    "settings \<Rightarrow> (string \<times> fsnode) list \<Rightarrow> path \<Rightarrow> path \<Rightarrow> world \<Rightarrow> unit res \<times> world"
where
  "syncDirectoryFromExternal s node dirPath relativeDirPath w =
     (if \<not> shouldSyncFile s relativeDirPath then (Ok (), w)
      else
        (case (if getAbstractFileByPath (vault w) relativeDirPath = None
               then ensureVaultDirectory relativeDirPath w else (Ok (), w)) of
           (Throw e, w1) \<Rightarrow> (Throw e, w1)
         | (Ok _, w1) \<Rightarrow>
             (case node of
                Some (Dir entries) \<Rightarrow>
                  if entries = [] then (Ok (), w1)
                  else sync_entries s entries dirPath relativeDirPath w1
              | _ \<Rightarrow> (Throw IOError, w1))))"
| "sync_entries s [] dirPath relativeDirPath w = (Ok (), w)"
| "sync_entries s ((name, entry) # rest) dirPath relativeDirPath w =
     (let entryPath = path_join dirPath name;
          entryRelativePath =
            (if relativeDirPath \<noteq> [] then path_join relativeDirPath name else name);
          normalizedEntryRelativePath = replace_backslashes entryRelativePath
      in
        if \<not> shouldSyncFile s normalizedEntryRelativePath
        then sync_entries s rest dirPath relativeDirPath w
        else if isDirectory entry then
          (case syncDirectoryFromExternal s (Some entry) entryPath normalizedEntryRelativePath w of
             (Throw e, w1) \<Rightarrow> (Throw e, w1)
           | (Ok _, w1) \<Rightarrow> sync_entries s rest dirPath relativeDirPath w1)
        else if isFile entry then
          (let isBinaryFile = isBinaryFileType normalizedEntryRelativePath;
               w1 = swallow
                      (io_bind (read_node isBinaryFile entryPath (Some entry) w)
                         (\<lambda>content w2.
                            write_to_vault isBinaryFile normalizedEntryRelativePath content
                              (getAbstractFileByPath (vault w2) normalizedEntryRelativePath) w2))
           in sync_entries s rest dirPath relativeDirPath w1)
        else sync_entries s rest dirPath relativeDirPath w)"

text \<open>
  \<open>DirectorySync.scanAndCreateAllDirectories\<close> and its loop over the entries. Every
  error is caught and logged in the call where it happens.
\<close>

fun scanAndCreateAllDirectories ::
    "settings \<Rightarrow> fsnode option \<Rightarrow> path \<Rightarrow> path \<Rightarrow> world \<Rightarrow> world"
  and scan_entries ::
    "settings \<Rightarrow> (string \<times> fsnode) list \<Rightarrow> path \<Rightarrow> path \<Rightarrow> world \<Rightarrow> world"
where
  "scanAndCreateAllDirectories s node basePath relativePath w =
     (case node of
        None \<Rightarrow> w
      | Some n \<Rightarrow>
          (case (if relativePath \<noteq> [] then
                   (let normalizedRelativePath = replace_backslashes relativePath in
                    if shouldSyncFile s normalizedRelativePath then
                      (if getAbstractFileByPath (vault w) normalizedRelativePath = None
                       then io_bind (ensureVaultDirectory normalizedRelativePath w)
                              (\<lambda>_ w1. (Ok True, w1))
                       else (Ok True, w))
                    else (Ok False, w))
                 else (Ok True, w)) of
             (Throw e, w1) \<Rightarrow> w1
           | (Ok False, w1) \<Rightarrow> w1
           | (Ok True, w1) \<Rightarrow>
               (case n of
                  Dir entries \<Rightarrow> scan_entries s entries basePath relativePath w1
                | _ \<Rightarrow> w1)))"
| "scan_entries s [] basePath relativePath w = w"
| "scan_entries s ((name, entry) # rest) basePath relativePath w =
     (if isDirectory entry then
        (let entryPath = path_join basePath name;
             entryRelativePath =
               (if relativePath \<noteq> [] then path_join relativePath name else name);
             w1 = scanAndCreateAllDirectories s (Some entry) entryPath entryRelativePath w
         in scan_entries s rest basePath relativePath w1)
      else scan_entries s rest basePath relativePath w)"

text \<open>The relative path under which full synchronization walks an external folder.\<close>

definition external_folder_relative :: "settings \<Rightarrow> path \<Rightarrow> path" where
  "external_folder_relative s externalFolder =
     (let relativePath = path_relative (syncFolderPath s) externalFolder;
          normalizedRelativePath = replace_backslashes relativePath
      in if normalizedRelativePath \<noteq> [] then normalizedRelativePath
         else basename externalFolder)"

fun scan_external_folders :: "settings \<Rightarrow> path list \<Rightarrow> world \<Rightarrow> world" where
  "scan_external_folders s [] w = w"
| "scan_external_folders s (externalFolder # rest) w =
     (if existsSync w externalFolder then
        scan_external_folders s rest
          (scanAndCreateAllDirectories s (node_at w externalFolder) externalFolder
             (external_folder_relative s externalFolder) w)
      else scan_external_folders s rest w)"

fun sync_external_folders :: "settings \<Rightarrow> path list \<Rightarrow> world \<Rightarrow> unit res \<times> world" where
  "sync_external_folders s [] w = (Ok (), w)"
| "sync_external_folders s (externalFolder # rest) w =
     (if existsSync w externalFolder then
        io_bind (syncDirectoryFromExternal s (node_at w externalFolder) externalFolder
                   (external_folder_relative s externalFolder) w)
          (\<lambda>_ w1. sync_external_folders s rest w1)
      else sync_external_folders s rest w)"

text \<open>The two steps of \<open>DirectorySync.syncAllExternalDirectories\<close>.\<close>

definition create_directory_structure :: "settings \<Rightarrow> world \<Rightarrow> world" where
  "create_directory_structure s w =
     scan_external_folders s (externalIncludedFolders s)
       (scanAndCreateAllDirectories s (node_at w (syncFolderPath s)) (syncFolderPath s) [] w)"

definition synchronize_files :: "settings \<Rightarrow> world \<Rightarrow> unit res \<times> world" where
  "synchronize_files s w =
     io_bind (syncDirectoryFromExternal s (node_at w (syncFolderPath s)) (syncFolderPath s) [] w)
       (\<lambda>_ w1. sync_external_folders s (externalIncludedFolders s) w1)"

text \<open>\<open>DirectorySync.syncAllExternalDirectories\<close>\<close>

definition syncAllExternalDirectories :: "settings \<Rightarrow> world \<Rightarrow> world" where
  "syncAllExternalDirectories s w =
     (if syncFolderPath s = [] \<or> \<not> existsSync w (syncFolderPath s) then w
      else swallow (synchronize_files s (create_directory_structure s w)))"

text \<open>\<open>DirectorySync.handleExternalDirectoryCreation\<close>\<close>

definition handleExternalDirectoryCreation :: "settings \<Rightarrow> path \<Rightarrow> path \<Rightarrow> world \<Rightarrow> world" where
  "handleExternalDirectoryCreation s fullPath relativePath w =
     (if \<not> shouldSyncFile s relativePath then w
      else swallow
             (io_bind (if getAbstractFileByPath (vault w) relativePath = None
                       then ensureVaultDirectory relativePath w else (Ok (), w))
                (\<lambda>_ w1.
                   syncDirectoryFromExternal s (node_at w1 fullPath) fullPath relativePath w1)))"

text \<open>
  \<open>DirectorySync.getAllFilesInFolder\<close>: the files below a managed folder. The code
  collects them by a depth-first walk of the \<open>children\<close> that the host keeps for each
  folder; the store of the model is flat, and the files come in the order of the store.
  The files are the same, the order in which they are trashed may differ.
\<close>

definition getAllFilesInFolder :: "vault \<Rightarrow> path \<Rightarrow> path list" where
  "getAllFilesInFolder v folderPath =
     map fst (filter (\<lambda>(q, n). isTFile (Some n) \<and> startsWith q (folderPath @ ''/'')) v)"

fun trash_notes :: "path list \<Rightarrow> world \<Rightarrow> world" where
  "trash_notes [] w = w"
| "trash_notes (note # notes) w = trash_notes notes (swallow (vault_trash note w))"

text \<open>\<open>DirectorySync.moveFolderToTrash\<close>\<close>

definition moveFolderToTrash :: "path \<Rightarrow> world \<Rightarrow> world" where
  "moveFolderToTrash folderPath w =
     (if isTFolder (getAbstractFileByPath (vault w) folderPath) then
        (let notesToTrash = getAllFilesInFolder (vault w) folderPath;
             w1 = trash_notes notesToTrash w
         in swallow (vault_trash folderPath w1))
      else w)"

text \<open>\<open>DirectorySync.checkForRenamedDirectory\<close>\<close>

definition checkForRenamedDirectory :: "path \<Rightarrow> bool" where
  "checkForRenamedDirectory oldRelativePath = False"

text \<open>\<open>DirectorySync.handleExternalDirectoryDeletion\<close>\<close>

definition handleExternalDirectoryDeletion :: "settings \<Rightarrow> path \<Rightarrow> world \<Rightarrow> world" where
  "handleExternalDirectoryDeletion s relativePath w =
     (if \<not> shouldSyncFile s relativePath then w
      else if checkForRenamedDirectory relativePath then w
      else if isTFolder (getAbstractFileByPath (vault w) relativePath)
      then moveFolderToTrash relativePath w
      else w)"

text \<open>\<open>DirectorySync.handleFolderDeletion\<close>, with the user's answer to the dialog.\<close>

definition handleFolderDeletion :: "settings \<Rightarrow> bool \<Rightarrow> path \<Rightarrow> world \<Rightarrow> world" where
  "handleFolderDeletion s confirmed folderPath w =
     (if \<not> shouldSyncFile s folderPath then w
      else
        (case getExternalPath s folderPath of
           None \<Rightarrow> w
         | Some externalPath \<Rightarrow>
             if existsSync w externalPath then
               (let w1 = record_call (ConfirmationModal externalPath) w in
                if confirmed then swallow (rmdirSync_recursive externalPath w1) else w1)
             else w))"

text \<open>
  \<open>DirectorySync.moveDirectoryContents\<close> and its loop over the entries. The listing
  of a source directory is read when the call reaches it, after the target directory has
  been created; nothing bounds the recursion in the code, so the model counts steps and
  returns \<open>None\<close> when they run out.
\<close>

fun moveDirectoryContents ::
    "nat \<Rightarrow> path \<Rightarrow> path \<Rightarrow> world \<Rightarrow> (unit res \<times> world) option"
  and move_entries ::
    "nat \<Rightarrow> (string \<times> fsnode) list \<Rightarrow> path \<Rightarrow> path \<Rightarrow> world \<Rightarrow> (unit res \<times> world) option"
where
  "moveDirectoryContents 0 sourceDir targetDir w = None"
| "moveDirectoryContents (Suc fuel) sourceDir targetDir w =
     (case (if \<not> existsSync w targetDir then mkdirSync targetDir w else (Ok (), w)) of
        (Throw e, w1) \<Rightarrow> Some (Throw e, w1)
      | (Ok _, w1) \<Rightarrow>
          (case fs_readdir (node_at w1 sourceDir) of
             Throw e \<Rightarrow> Some (Throw e, w1)
           | Ok entries \<Rightarrow> move_entries fuel entries sourceDir targetDir w1))"
| "move_entries 0 entries sourceDir targetDir w = None"
| "move_entries (Suc fuel) [] sourceDir targetDir w = Some (Ok (), w)"
| "move_entries (Suc fuel) ((name, entry) # rest) sourceDir targetDir w =
     (let sourcePath = path_join sourceDir name;
          targetPath = path_join targetDir name
      in
        if isDirectory entry then
          (case moveDirectoryContents fuel sourcePath targetPath w of
             None \<Rightarrow> None
           | Some (Throw e, w1) \<Rightarrow> Some (Throw e, w1)
           | Some (Ok _, w1) \<Rightarrow>
               (let w2 =
                      (case fs_readdir (node_at w1 sourcePath) of
                         Throw e \<Rightarrow> w1
                       | Ok remainingFiles \<Rightarrow>
                           if remainingFiles = [] then swallow (rmdirSync sourcePath w1)
                           else w1)
                in move_entries fuel rest sourceDir targetDir w2))
        else if isFile entry then
          (case io_bind (copyFileSync sourcePath targetPath w)
                  (\<lambda>_ w1. unlinkSync sourcePath w1) of
             (Throw e, w1) \<Rightarrow> Some (Throw e, w1)
           | (Ok _, w1) \<Rightarrow> move_entries fuel rest sourceDir targetDir w1)
        else move_entries fuel rest sourceDir targetDir w)"

text \<open>
  \<open>DirectorySync.handleFolderRename\<close>; \<open>newPath\<close> is \<open>folder.path\<close>. The result is
  \<open>None\<close> when the merge of the two directories has not returned within \<open>fuel\<close> steps.
\<close>

definition handleFolderRename :: "nat \<Rightarrow> settings \<Rightarrow> path \<Rightarrow> path \<Rightarrow> world \<Rightarrow> world option" where
  "handleFolderRename fuel s newPath oldPath w =
     (case (getExternalPath s oldPath, getExternalPath s newPath) of
        (Some oldExternalPath, Some newExternalPath) \<Rightarrow>
          if existsSync w oldExternalPath then
            (if existsSync w newExternalPath then
               map_option swallow (moveDirectoryContents fuel oldExternalPath newExternalPath w)
             else Some (swallow (renameSync oldExternalPath newExternalPath w)))
          else if \<not> existsSync w newExternalPath
          then Some (swallow (mkdirSync newExternalPath w))
          else Some w
      | _ \<Rightarrow> Some w)"

section \<open>Watching the external store\<close>

datatype event_type = Rename | Change

text \<open>\<open>DirectorySync.isDirectoryWatched\<close>\<close>

definition isDirectoryWatched :: "path \<Rightarrow> bool" where
  "isDirectoryWatched dirPath = False"

text \<open>
  \<open>DirectorySync.watchDirectory\<close>: \<open>fs.watch\<close> throws on a path that is missing or
  cannot be read; the sub-directories that are not excluded get a watch of their own.
\<close>

fun watchDirectory :: "settings \<Rightarrow> fsnode option \<Rightarrow> path \<Rightarrow> watcher list \<Rightarrow> watcher list"
  and watch_entries ::
    "settings \<Rightarrow> (string \<times> fsnode) list \<Rightarrow> path \<Rightarrow> watcher list \<Rightarrow> watcher list"
where
  "watchDirectory s node dirPath ws =
     (case node of
        None \<Rightarrow> ws
      | Some DeniedDir \<Rightarrow> ws
      | Some DeniedFile \<Rightarrow> ws
      | Some (Dir entries) \<Rightarrow> watch_entries s entries dirPath (ws @ [DirectoryWatch dirPath])
      | Some _ \<Rightarrow> ws @ [DirectoryWatch dirPath])"
| "watch_entries s [] dirPath ws = ws"
| "watch_entries s ((name, entry) # rest) dirPath ws =
     (if isDirectory entry then
        (let subDirPath = path_join dirPath name;
             relativePath = replace_backslashes (path_relative (syncFolderPath s) subDirPath)
         in if \<not> isExcluded s relativePath \<and> \<not> isDirectoryWatched subDirPath
            then watch_entries s rest dirPath (watchDirectory s (Some entry) subDirPath ws)
            else watch_entries s rest dirPath ws)
      else watch_entries s rest dirPath ws)"

text \<open>
  \<open>DirectorySync.setupExternalWatcher\<close> with \<open>setupFallbackWatcher\<close>;
  \<open>recursiveSupported\<close> tells whether the platform accepts a recursive watch.
\<close>

definition setupExternalWatcher :: "bool \<Rightarrow> settings \<Rightarrow> world \<Rightarrow> world" where
  "setupExternalWatcher recursiveSupported s g =
     (let g0 = g\<lparr>fileWatchers := []\<rparr> in
      if syncFolderPath s = [] \<or> \<not> fs_existsSync (ext g0) (syncFolderPath s) then g0
      else if recursiveSupported then g0\<lparr>fileWatchers := [RecursiveWatch (syncFolderPath s)]\<rparr>
      else g0\<lparr>fileWatchers :=
                 watchDirectory s (fs_lookup (ext g0) (path_segments (syncFolderPath s)))
                   (syncFolderPath s) []\<rparr>)"

text \<open>
  The callback of the recursive watch. \<open>filename\<close> is \<open>None\<close> when the platform
  gives no name; \<open>!filename\<close> holds for no name and for the empty name.
\<close>

definition recursive_watch_callback ::
  "settings \<Rightarrow> event_type \<Rightarrow> string option \<Rightarrow> world \<Rightarrow> world" where
  "recursive_watch_callback s eventType filename' g =
     (case filename' of
        None \<Rightarrow> g
      | Some filename \<Rightarrow>
          if filename = [] then g
          else if getProcessingExternalChange g then g
          else
            let normalizedFilename = replace_backslashes filename in
            if isExcluded s normalizedFilename then g
            else
              let fullPath = path_join (syncFolderPath s) filename in
              (case fs_lookup (ext g) (path_segments fullPath) of
                 Some stats \<Rightarrow>
                   if isDirectory stats then
                     (let g1 = (if \<not> isDirectoryWatched fullPath
                                then g\<lparr>fileWatchers :=
                                         watchDirectory s (Some stats) fullPath (fileWatchers g)\<rparr>
                                else g)
                      in if eventType = Rename
                         then handleExternalDirectoryCreation s fullPath normalizedFilename g1
                         else g1)
                   else setTimeout (ExternalFileChange fullPath normalizedFilename) 500 g
               | None \<Rightarrow>
                   if eventType = Rename then
                     (let dirPath = dirname fullPath;
                          baseName = basename fullPath
                      in case fs_readdir (fs_lookup (ext g) (path_segments dirPath)) of
                           Ok parentDirEntries \<Rightarrow>
                             (let dirExists =
                                    list_ex (\<lambda>(name, entry). isDirectory entry \<and> name = baseName)
                                      parentDirEntries
                              in if \<not> dirExists then
                                   (let relativeDirPath =
                                          replace_backslashes
                                            (path_relative (syncFolderPath s) fullPath);
                                        existingDir =
                                          getAbstractFileByPath (vault g) relativeDirPath
                                    in if isTFolder existingDir
                                       then handleExternalDirectoryDeletion s relativeDirPath g
                                       else handleExternalFileDeletion s normalizedFilename g)
                                 else g)
                         | Throw dirError \<Rightarrow>
                             handleExternalFileDeletion s normalizedFilename g)
                   else g))"

text \<open>The callback of a watch on the single directory \<open>dirPath\<close>.\<close>

definition directory_watch_callback ::
  "settings \<Rightarrow> path \<Rightarrow> event_type \<Rightarrow> string option \<Rightarrow> world \<Rightarrow> world" where
  "directory_watch_callback s dirPath eventType filename' g =
     (case filename' of
        None \<Rightarrow> g
      | Some filename \<Rightarrow>
          if filename = [] then g
          else if getProcessingExternalChange g then g
          else
            let fullPath = path_join dirPath filename;
                relativePath = replace_backslashes (path_relative (syncFolderPath s) fullPath)
            in
              if isExcluded s relativePath then g
              else
                (case fs_lookup (ext g) (path_segments fullPath) of
                   Some stats \<Rightarrow>
                     if isDirectory stats then
                       (if \<not> isDirectoryWatched fullPath
                        then g\<lparr>fileWatchers := watchDirectory s (Some stats) fullPath (fileWatchers g)\<rparr>
                        else g)
                     else setTimeout (ExternalFileChange fullPath relativePath) 500 g
                 | None \<Rightarrow>
                     if eventType = Rename
                     then handleExternalFileDeletion s relativePath g
                     else g))"

text \<open>A raw event fires on one of the watch handles.\<close>

definition watch_event ::
  "settings \<Rightarrow> watcher \<Rightarrow> event_type \<Rightarrow> string option \<Rightarrow> world \<Rightarrow> world" where
  "watch_event s wt eventType filename g =
     (case wt of
        RecursiveWatch root \<Rightarrow> recursive_watch_callback s eventType filename g
      | DirectoryWatch dirPath \<Rightarrow> directory_watch_callback s dirPath eventType filename g)"

text \<open>A timer expires and its callback runs.\<close>

definition run_task :: "settings \<Rightarrow> task \<Rightarrow> world \<Rightarrow> world" where
  "run_task s t w =
     (case t of
        ClearGuard \<Rightarrow> setProcessingExternalChange False w
      | ExternalFileChange fullPath relativePath \<Rightarrow>
          handleExternalFileChange s fullPath relativePath w)"

section \<open>The plugin\<close>

text \<open>\<open>SyncRepPlugin.syncFromExternal\<close>\<close>

definition syncFromExternal :: "settings \<Rightarrow> world \<Rightarrow> world" where
  "syncFromExternal s w =
     (if syncFolderPath s = [] \<or> \<not> existsSync w (syncFolderPath s) then w
      else
        let w1 = setProcessingExternalChange True w;
            w2 = syncAllExternalDirectories s w1
        in setTimeout ClearGuard 500 w2)"

text \<open>The item that an event of the managed store carries.\<close>

datatype abstract_file = AFile path | AFolder path

text \<open>The handlers that \<open>registerFileEvents\<close> installs.\<close>

definition on_modify :: "settings \<Rightarrow> abstract_file \<Rightarrow> world \<Rightarrow> world" where
  "on_modify s file w =
     (case file of
        AFile p \<Rightarrow> if syncOnSave s \<and> shouldSyncFile s p then syncFile s p w else w
      | AFolder p \<Rightarrow> w)"

definition on_create :: "settings \<Rightarrow> abstract_file \<Rightarrow> world \<Rightarrow> world" where
  "on_create s file w =
     (case file of
        AFile p \<Rightarrow> if shouldSyncFile s p then syncFile s p w else w
      | AFolder p \<Rightarrow> if shouldSyncFile s p then syncFolder s p w else w)"

definition on_delete :: "settings \<Rightarrow> bool \<Rightarrow> abstract_file \<Rightarrow> world \<Rightarrow> world" where
  "on_delete s confirmed file w =
     (case file of
        AFile p \<Rightarrow> if shouldSyncFile s p then handleFileDeletion s confirmed p w else w
      | AFolder p \<Rightarrow> if shouldSyncFile s p then handleFolderDeletion s confirmed p w else w)"

definition on_rename ::
  "nat \<Rightarrow> settings \<Rightarrow> bool \<Rightarrow> abstract_file \<Rightarrow> path \<Rightarrow> world \<Rightarrow> world option" where
  "on_rename fuel s confirmed file oldPath w =
     (case file of
        AFile newPath \<Rightarrow>
          (let oldShouldSync = shouldSyncFile s oldPath;
               newShouldSync = shouldSyncFile s newPath
           in if oldShouldSync \<and> newShouldSync then
                (case handleFileRename s oldPath newPath w of
                   (renamed, w1) \<Rightarrow>
                     if renamed \<noteq> Some True then Some (syncFile s newPath w1) else Some w1)
              else if oldShouldSync then Some (handleFileDeletion s confirmed oldPath w)
              else if newShouldSync then Some (syncFile s newPath w)
              else Some w)
      | AFolder newPath \<Rightarrow>
          if shouldSyncFile s oldPath \<or> shouldSyncFile s newPath
          then handleFolderRename fuel s newPath oldPath w
          else Some w)"

section \<open>Example configurations\<close>

definition include_settings :: settings where
  "include_settings =
     \<lparr>syncFolderPath = ''/ext'', syncOnSave = True, excludedFolders = [''notes''],
      includedFolders = [''notes''], externalIncludedFolders = [], syncMode = Include\<rparr>"

definition all_settings :: settings where
  "all_settings =
     \<lparr>syncFolderPath = ''/ext'', syncOnSave = True, excludedFolders = [''private''],
      includedFolders = [], externalIncludedFolders = [], syncMode = All\<rparr>"

definition guarded_world :: world where
  "guarded_world =
     \<lparr>vault = [(''a.md'', TFile ''old'')],
      ext = Dir [(''ext'', Dir [(''a.md'', File ''new'')])],
      isProcessingExternalChange = True, timers = [], fileWatchers = [], calls = []\<rparr>"

definition idle_world :: world where
  "idle_world =
     \<lparr>vault = [(''a.md'', TFile ''old'')],
      ext = Dir [(''ext'', Dir [(''a.md'', File ''new'')])],
      isProcessingExternalChange = False, timers = [], fileWatchers = [], calls = []\<rparr>"

definition locked_world :: world where
  "locked_world =
     \<lparr>vault = [],
      ext = Dir [(''ext'', Dir [(''locked'', DeniedDir), (''b.md'', File ''text'')])],
      isProcessingExternalChange = False, timers = [], fileWatchers = [], calls = []\<rparr>"

definition merge_world :: world where
  "merge_world =
     \<lparr>vault = [(''new'', TFolder), (''new/x.md'', TFile ''text'')],
      ext = Dir [(''ext'', Dir [(''old'', Dir [(''x.md'', File ''text'')]), (''new'', Dir [])])],
      isProcessingExternalChange = False, timers = [], fileWatchers = [], calls = []\<rparr>"

definition blocked_world :: world where
  "blocked_world =
     \<lparr>vault = [(''a'', TFolder), (''a/b'', TFolder), (''a/b/x.md'', TFile ''text'')],
      ext = Dir [(''ext'', Dir [(''a'', File ''a regular file'')])],
      isProcessingExternalChange = False, timers = [], fileWatchers = [], calls = []\<rparr>"

definition rename_world :: world where
  "rename_world =
     \<lparr>vault = [(''a'', TFolder), (''a/y.md'', TFile ''text'')],
      ext = Dir [(''ext'', Dir [(''a'', Dir [(''x.md'', File ''text'')])])],
      isProcessingExternalChange = False, timers = [], fileWatchers = [], calls = []\<rparr>"

definition rename_blocked_world :: world where
  "rename_blocked_world =
     \<lparr>vault = [(''b'', TFolder), (''b/y.md'', TFile ''text'')],
      ext = Dir [(''ext'', Dir [(''a.md'', File ''text''), (''b'', File ''a regular file'')])],
      isProcessingExternalChange = False, timers = [], fileWatchers = [], calls = []\<rparr>"

section \<open>Vocabulary of the properties\<close>

definition raises :: "'a res \<Rightarrow> bool" where
  "raises r = (case r of Throw _ \<Rightarrow> True | Ok _ \<Rightarrow> False)"

text \<open>The read and the write that \<open>syncFile\<close> chooses for a managed path.\<close>

definition read_call :: "path \<Rightarrow> call" where
  "read_call p = (if isBinaryFileType p then VaultReadBinary p else VaultRead p)"

definition write_call :: "path \<Rightarrow> path \<Rightarrow> content \<Rightarrow> call" where
  "write_call p destPath c =
     (if isBinaryFileType p then FsWriteFile destPath c else FsWriteFileUtf8 destPath c)"

text \<open>The external store once a parent directory is in place: created if absent.\<close>

definition parent_ready :: "world \<Rightarrow> path \<Rightarrow> fsnode res" where
  "parent_ready w dir = (if existsSync w dir then Ok (ext w) else fs_mkdirSync (ext w) dir)"

definition mkdir_calls :: "world \<Rightarrow> path \<Rightarrow> call list" where
  "mkdir_calls w dir = (if existsSync w dir then [] else [FsMkdir dir])"

definition notes_world :: world where
  "notes_world =
     \<lparr>vault = [(''private'', TFolder), (''private/a.md'', TFile ''text'')],
      ext = Dir [(''ext'', Dir [(''notes'', Dir [(''a.md'', File ''text'')])])],
      isProcessingExternalChange = False, timers = [], fileWatchers = [], calls = []\<rparr>"

section \<open>Vocabulary of full synchronization\<close>

text \<open>The paths that \<open>ensureVaultDirectory\<close> looks up, in order.\<close>

fun ensure_paths :: "string list \<Rightarrow> path \<Rightarrow> path list" where
  "ensure_paths [] currentPath = []"
| "ensure_paths (dir # dirs) currentPath =
     (let currentPath' = (if currentPath \<noteq> [] then currentPath @ ''/'' @ dir else dir)
      in currentPath' # ensure_paths dirs currentPath')"

definition occupied :: "vault \<Rightarrow> path \<Rightarrow> bool" where
  "occupied v p = (map_of v p \<noteq> None)"

text \<open>Nothing is left to create for a directory path.\<close>

definition dir_ok :: "vault \<Rightarrow> path \<Rightarrow> bool" where
  "dir_ok v d = (occupied v d \<or> list_all (occupied v) (ensure_paths (split_slash d) []))"

definition is_vault_write :: "call \<Rightarrow> bool" where
  "is_vault_write c =
     (case c of
        VaultCreate _ _ \<Rightarrow> True
      | VaultCreateBinary _ _ \<Rightarrow> True
      | VaultModify _ _ \<Rightarrow> True
      | VaultModifyBinary _ _ \<Rightarrow> True
      | VaultCreateFolder _ \<Rightarrow> True
      | VaultTrash _ \<Rightarrow> True
      | _ \<Rightarrow> False)"

definition is_createFolder :: "call \<Rightarrow> bool" where
  "is_createFolder c = (case c of VaultCreateFolder _ \<Rightarrow> True | _ \<Rightarrow> False)"

text \<open>Entries stay, and what is added is a folder.\<close>

definition adds_folders :: "vault \<Rightarrow> vault \<Rightarrow> bool" where
  "adds_folders v v' =
     (\<forall>p. (case map_of v p of
              Some n \<Rightarrow> map_of v' p = Some n
            | None \<Rightarrow> map_of v' p = None \<or> map_of v' p = Some TFolder))"

definition only_folder_calls :: "world \<Rightarrow> world \<Rightarrow> bool" where
  "only_folder_calls w w' = (\<exists>cs. calls w' = calls w @ cs \<and> list_all is_createFolder cs)"

definition same_outside_vault :: "world \<Rightarrow> world \<Rightarrow> bool" where
  "same_outside_vault w w' =
     (ext w' = ext w \<and> isProcessingExternalChange w' = isProcessingExternalChange w
      \<and> timers w' = timers w \<and> fileWatchers w' = fileWatchers w)"

fun scan_dirs :: "settings \<Rightarrow> fsnode option \<Rightarrow> path \<Rightarrow> path list"
  and scan_entries_dirs :: "settings \<Rightarrow> (string \<times> fsnode) list \<Rightarrow> path \<Rightarrow> path list"
where
  "scan_dirs s node relativePath =
     (case node of
        None \<Rightarrow> []
      | Some n \<Rightarrow>
          if relativePath \<noteq> [] \<and> \<not> shouldSyncFile s (replace_backslashes relativePath) then []
          else (if relativePath \<noteq> [] then [replace_backslashes relativePath] else []) @
               (case n of
                  Dir entries \<Rightarrow> scan_entries_dirs s entries relativePath
                | _ \<Rightarrow> []))"
| "scan_entries_dirs s [] relativePath = []"
| "scan_entries_dirs s ((name, entry) # rest) relativePath =
     (if isDirectory entry then
        scan_dirs s (Some entry)
          (if relativePath \<noteq> [] then path_join relativePath name else name)
        @ scan_entries_dirs s rest relativePath
      else scan_entries_dirs s rest relativePath)"

definition ensured :: "path \<Rightarrow> world \<Rightarrow> world" where
  "ensured p w = (if map_of (vault w) p = None then snd (ensureVaultDirectory p w) else w)"

definition folder_step :: "world \<Rightarrow> world \<Rightarrow> bool" where
  "folder_step w w' =
     (same_outside_vault w w' \<and> adds_folders (vault w) (vault w') \<and> only_folder_calls w w')"





definition writes_to :: "call \<Rightarrow> path option" where
  "writes_to c =
     (case c of
        VaultCreate p _ \<Rightarrow> Some p
      | VaultCreateBinary p _ \<Rightarrow> Some p
      | VaultModify p _ \<Rightarrow> Some p
      | VaultModifyBinary p _ \<Rightarrow> Some p
      | _ \<Rightarrow> None)"

definition keeps_kinds :: "vault \<Rightarrow> vault \<Rightarrow> bool" where
  "keeps_kinds v v' =
     (\<forall>q. (map_of v q = Some TFolder \<longrightarrow> map_of v' q = Some TFolder)
          \<and> (isTFile (map_of v q) \<longrightarrow> isTFile (map_of v' q)))"

definition sync_step :: "path set \<Rightarrow> world \<Rightarrow> world \<Rightarrow> bool" where
  "sync_step P w w' =
     (same_outside_vault w w'
      \<and> keeps_kinds (vault w) (vault w')
      \<and> (\<forall>q x. q \<notin> P \<longrightarrow> map_of (vault w) q = Some (TFile x)
                 \<longrightarrow> map_of (vault w') q = Some (TFile x))
      \<and> (\<exists>cs. calls w' = calls w @ cs
               \<and> (\<forall>c \<in> set cs. \<forall>q. writes_to c = Some q \<longrightarrow> q \<in> P)))"

definition read_step :: "world \<Rightarrow> world \<Rightarrow> bool" where
  "read_step w w' =
     (vault w' = vault w \<and> same_outside_vault w w'
      \<and> (\<exists>cs. calls w' = calls w @ cs \<and> list_all (\<lambda>c. \<not> is_vault_write c) cs))"


text \<open>The managed path of an entry in the walk of the second step.\<close>

definition entry_path :: "path \<Rightarrow> string \<Rightarrow> path" where
  "entry_path rel name =
     replace_backslashes (if rel \<noteq> [] then path_join rel name else name)"

text \<open>Whether the walk of a directory returns without throwing.\<close>

fun sync_completes :: "settings \<Rightarrow> fsnode option \<Rightarrow> path \<Rightarrow> bool"
  and entries_complete :: "settings \<Rightarrow> (string \<times> fsnode) list \<Rightarrow> path \<Rightarrow> bool"
where
  "sync_completes s node rel =
     (if \<not> shouldSyncFile s rel then True
      else (case node of
              Some (Dir entries) \<Rightarrow> entries_complete s entries rel
            | _ \<Rightarrow> False))"
| "entries_complete s [] rel = True"
| "entries_complete s ((name, entry) # rest) rel =
     (if \<not> shouldSyncFile s (entry_path rel name) then entries_complete s rest rel
      else if isDirectory entry then
        sync_completes s (Some entry) (entry_path rel name) \<and> entries_complete s rest rel
      else entries_complete s rest rel)"

text \<open>The readable files that the walk reaches, with their managed paths.\<close>

fun sync_files :: "settings \<Rightarrow> fsnode option \<Rightarrow> path \<Rightarrow> (path \<times> content) list"
  and entries_files :: "settings \<Rightarrow> (string \<times> fsnode) list \<Rightarrow> path \<Rightarrow> (path \<times> content) list"
where
  "sync_files s node rel =
     (if \<not> shouldSyncFile s rel then []
      else (case node of
              Some (Dir entries) \<Rightarrow> entries_files s entries rel
            | _ \<Rightarrow> []))"
| "entries_files s [] rel = []"
| "entries_files s ((name, entry) # rest) rel =
     (if \<not> shouldSyncFile s (entry_path rel name) then entries_files s rest rel
      else if isDirectory entry then
        sync_files s (Some entry) (entry_path rel name)
        @ (if sync_completes s (Some entry) (entry_path rel name)
           then entries_files s rest rel else [])
      else if isFile entry then
        (case entry of File c \<Rightarrow> [(entry_path rel name, c)] | _ \<Rightarrow> [])
        @ entries_files s rest rel
      else entries_files s rest rel)"

text \<open>The directories that the walk reaches.\<close>

fun sync_dirs :: "settings \<Rightarrow> fsnode option \<Rightarrow> path \<Rightarrow> path list"
  and entries_dirs :: "settings \<Rightarrow> (string \<times> fsnode) list \<Rightarrow> path \<Rightarrow> path list"
where
  "sync_dirs s node rel =
     (if \<not> shouldSyncFile s rel then []
      else rel # (case node of
                   Some (Dir entries) \<Rightarrow> entries_dirs s entries rel
                 | _ \<Rightarrow> []))"
| "entries_dirs s [] rel = []"
| "entries_dirs s ((name, entry) # rest) rel =
     (if \<not> shouldSyncFile s (entry_path rel name) then entries_dirs s rest rel
      else if isDirectory entry then
        sync_dirs s (Some entry) (entry_path rel name)
        @ (if sync_completes s (Some entry) (entry_path rel name)
           then entries_dirs s rest rel else [])
      else entries_dirs s rest rel)"


definition settled :: "vault \<Rightarrow> (path \<times> content) list \<Rightarrow> bool" where
  "settled v items =
     (\<forall>(p, c) \<in> set items. map_of v p = Some (TFile c) \<or> map_of v p = Some TFolder)"

definition holds_all :: "vault \<Rightarrow> (path \<times> content) list \<Rightarrow> bool" where
  "holds_all v items = (\<forall>(p, c) \<in> set items. map_of v p = Some (TFile c))"


















section \<open>Path policy\<close>

lemma isIncluded_loop_iff:
  "isIncluded_loop fs p \<longleftrightarrow> (\<exists>f \<in> set fs. f = [] \<or> p = f \<or> startsWith p (f @ ''/''))"
  by (induction fs) auto

lemma isExternalIncluded_loop_iff:
  "isExternalIncluded_loop es p \<longleftrightarrow>
     (\<exists>e \<in> set es. p = basename e \<or> startsWith p (basename e @ ''/''))"
  by (induction es) (auto simp: Let_def)

text \<open>
  C10. In \<open>include\<close> mode \<open>shouldSyncFile\<close> does not consult the excluded folders: a
  path that is an included folder or below one, or that is the base name of a
  configured external folder or below it, passes the policy, and replacing the list of
  excluded folders by any other list does not change the answer.
\<close>

theorem include_mode_ignores_excluded:
  assumes "syncMode s = Include"
    and "(\<exists>f \<in> set (includedFolders s). p = f \<or> startsWith p (f @ ''/''))
         \<or> (\<exists>e \<in> set (externalIncludedFolders s).
               p = basename e \<or> startsWith p (basename e @ ''/''))"
  shows "shouldSyncFile s p
         \<and> shouldSyncFile (s\<lparr>excludedFolders := ex\<rparr>) p = shouldSyncFile s p"
  using assms
  by (auto simp: shouldSyncFile_def isIncluded_def isExternalIncluded_def
      isIncluded_loop_iff isExternalIncluded_loop_iff)

text \<open>
  The path \<open>notes/a.md\<close> is below the included folder \<open>notes\<close>, which is an excluded
  folder as well: it is synchronized.
\<close>

theorem include_mode_ignores_excluded_witness:
  "isExcluded include_settings ''notes/a.md'' \<and> shouldSyncFile include_settings ''notes/a.md''"
proof -
  have "syncMode include_settings = Include"
    by (simp add: include_settings_def)
  moreover have "\<exists>f \<in> set (includedFolders include_settings).
      ''notes/a.md'' = f \<or> startsWith ''notes/a.md'' (f @ ''/'')"
    by (simp add: include_settings_def startsWith_def)
  ultimately have "shouldSyncFile include_settings ''notes/a.md''"
    using include_mode_ignores_excluded [of include_settings "''notes/a.md''"] by blast
  moreover have "isExcluded include_settings ''notes/a.md''"
    by (simp add: include_settings_def isExcluded_def startsWith_def)
  ultimately show ?thesis by simp
qed

section \<open>The change guard\<close>

text \<open>
  C4. When the change guard is set at the time a raw watch event fires, the callback of
  either kind of watch returns at once: the state is left as it was, so no call on the
  managed store is made, no handler runs and no timer is started.
\<close>

theorem guard_drops_watch_event:
  assumes "getProcessingExternalChange w"
  shows "watch_event s wt eventType filename w = w"
  using assms
  by (cases wt; cases filename)
     (simp_all add: watch_event_def recursive_watch_callback_def directory_watch_callback_def)

text \<open>
  The external file \<open>/ext/a.md\<close> differs from the managed one; with the guard set, a
  change event for it leaves the state untouched.
\<close>

theorem guard_drops_watch_event_witness:
  "getProcessingExternalChange guarded_world
   \<and> watch_event all_settings (RecursiveWatch ''/ext'') Change (Some ''a.md'') guarded_world
       = guarded_world"
proof -
  have g: "getProcessingExternalChange guarded_world"
    by (simp add: getProcessingExternalChange_def guarded_world_def)
  show ?thesis
    using g guard_drops_watch_event [OF g] by simp
qed

text \<open>
  C5. The claim asks that the guard, once set by an inbound operation, is cleared only
  by a timer after the write. \<open>handleExternalFileDeletion\<close> and \<open>syncFromExternal\<close>
  do so; \<open>handleExternalFileChange\<close> does not. Here the external file \<open>/ext/a.md\<close>
  differs from the managed one: the handler modifies the managed file and returns with
  the guard already cleared and no timer started.
\<close>

theorem handleExternalFileChange_clears_guard_at_once:
  "handleExternalFileChange all_settings ''/ext/a.md'' ''a.md'' idle_world =
     \<lparr>vault = [(''a.md'', TFile ''new'')],
      ext = Dir [(''ext'', Dir [(''a.md'', File ''new'')])],
      isProcessingExternalChange = False, timers = [], fileWatchers = [],
      calls = [FsReadFileUtf8 ''/ext/a.md'', VaultRead ''a.md'', VaultModify ''a.md'' ''new'']\<rparr>"
  by code_simp

text \<open>The guard is cleared on every return of \<open>handleExternalFileChange\<close>.\<close>

lemma handleExternalFileChange_guard:
  "\<not> isProcessingExternalChange (handleExternalFileChange s fullPath relativePath w)"
  by (simp add: handleExternalFileChange_def setProcessingExternalChange_def Let_def)

text \<open>The two sibling operations leave the guard set and start the timer that clears it.\<close>

lemma handleExternalFileDeletion_guard:
  "isProcessingExternalChange (handleExternalFileDeletion s relativePath w)
   \<and> timers (handleExternalFileDeletion s relativePath w) \<noteq> []
   \<and> last (timers (handleExternalFileDeletion s relativePath w)) = (500, ClearGuard)"
proof -
  have keep: "isProcessingExternalChange (moveFileToTrash p u) = isProcessingExternalChange u"
    for p u
    by (simp add: moveFileToTrash_def swallow_def vault_trash_def vault_change_def
        record_call_def split: res.splits)
  show ?thesis
    by (simp add: handleExternalFileDeletion_def setTimeout_def setProcessingExternalChange_def
        Let_def keep)
qed

section \<open>Folder rename\<close>

text \<open>
  C8. The managed folder \<open>old\<close> has been renamed to \<open>new\<close>, and both \<open>/ext/old\<close>
  and \<open>/ext/new\<close> exist. The merge moves \<open>x.md\<close> by a copy and a delete, and returns;
  the source directory \<open>/ext/old\<close> is empty afterwards and is still there: no call
  removes it.
\<close>

theorem handleFolderRename_keeps_empty_source:
  "handleFolderRename 3 all_settings ''new'' ''old'' merge_world =
     Some \<lparr>vault = [(''new'', TFolder), (''new/x.md'', TFile ''text'')],
           ext = Dir [(''ext'', Dir [(''old'', Dir []), (''new'', Dir [(''x.md'', File ''text'')])])],
           isProcessingExternalChange = False, timers = [], fileWatchers = [],
           calls = [FsCopyFile ''/ext/old/x.md'' ''/ext/new/x.md'', FsUnlink ''/ext/old/x.md'']\<rparr>"
  by code_simp

section \<open>Failures during full synchronization\<close>

text \<open>
  C9. The external root lists the directory \<open>locked\<close>, whose listing fails, before the
  file \<open>b.md\<close>. The first step creates the managed folder \<open>locked\<close>. In the second
  step the failed listing is thrown again by \<open>syncDirectoryFromExternal\<close> and ends the
  walk: \<open>b.md\<close> is never read and never created.
\<close>

theorem listing_failure_aborts_full_sync:
  "syncAllExternalDirectories all_settings locked_world =
     \<lparr>vault = [(''locked'', TFolder), ([], TFolder)],
      ext = Dir [(''ext'', Dir [(''locked'', DeniedDir), (''b.md'', File ''text'')])],
      isProcessingExternalChange = False, timers = [], fileWatchers = [],
      calls = [VaultCreateFolder ''locked'', VaultCreateFolder []]\<rparr>"
  by code_simp

section \<open>Outbound synchronization of a file\<close>

lemma fs_put_lookup: "fs_put root segs n = Some r \<Longrightarrow> fs_lookup r segs = Some n"
  by (induction root segs n arbitrary: r rule: fs_put.induct)
     (auto simp: update_conv' split: option.splits)

lemma fs_put_existing:
  "fs_lookup root segs = Some m \<Longrightarrow> segs \<noteq> [] \<Longrightarrow> fs_put root segs n \<noteq> None"
proof (induction root segs n arbitrary: m rule: fs_put.induct)
  case (3 es seg v va new)
  then show ?case by (fastforce split: option.splits)
qed auto

lemma fs_writeFile_over_file:
  assumes "fs_lookup root (path_segments p) = Some (File old)" and "path_segments p \<noteq> []"
  shows "\<exists>r. fs_writeFile root p c = Ok r \<and> fs_lookup r (path_segments p) = Some (File c)"
proof -
  from fs_put_existing [OF assms] obtain r where r: "fs_put root (path_segments p) (File c) = Some r"
    by blast
  then show ?thesis
    using assms(1) fs_put_lookup [OF r] by (simp add: fs_writeFile_def)
qed

text \<open>
  C6, as stated, fails where the parent directory cannot be created. The managed file
  \<open>a/b/x.md\<close> passes the policy and maps to \<open>/ext/a/b/x.md\<close>, but \<open>/ext/a\<close> is a
  regular file: \<open>mkdirSync\<close> raises, the error is caught, and the file is neither read
  nor written.
\<close>

theorem syncFile_blocked_counterexample:
  "shouldSyncFile all_settings ''a/b/x.md''
   \<and> getExternalPath all_settings ''a/b/x.md'' = Some ''/ext/a/b/x.md''
   \<and> getAbstractFileByPath (vault blocked_world) ''a/b/x.md'' = Some (TFile ''text'')
   \<and> syncFile all_settings ''a/b/x.md'' blocked_world
       = blocked_world\<lparr>calls := [FsMkdir ''/ext/a/b'']\<rparr>"
  by code_simp

text \<open>
  C6, amended. For a managed file holding \<open>c\<close> whose path passes the policy and maps
  to \<open>destPath\<close>, \<open>syncFile\<close> creates the parent directory when it is absent; unless
  that creation raises, it reads the file with the call its kind asks for (binary for
  an extension of the binary list, text otherwise) and issues the write of \<open>c\<close> to
  \<open>destPath\<close>. No call reads the external store, so nothing is compared, and an
  external file already at \<open>destPath\<close>, with whatever content \<open>old\<close>, holds \<open>c\<close>
  afterwards. When the creation raises, nothing is read or written.
\<close>

theorem syncFile_writes_without_comparison:
  assumes "shouldSyncFile s p"
    and "getExternalPath s p = Some destPath"
    and "getAbstractFileByPath (vault w) p = Some (TFile c)"
  shows "calls (syncFile s p w) =
           calls w @
           (if existsSync w (dirname destPath) then [read_call p, write_call p destPath c]
            else if raises (fs_mkdirSync (ext w) (dirname destPath))
            then [FsMkdir (dirname destPath)]
            else [FsMkdir (dirname destPath), read_call p, write_call p destPath c])
         \<and> vault (syncFile s p w) = vault w
         \<and> (existsSync w (dirname destPath) \<and> node_at w destPath = Some (File old)
              \<and> path_segments destPath \<noteq> []
            \<longrightarrow> node_at (syncFile s p w) destPath = Some (File c))"
proof -
  let ?dir = "dirname destPath"
  have rd: "vault_read (isBinaryFileType p) p u = (Ok c, record_call (read_call p) u)"
    if "vault u = vault w" for u
    using assms(3) that
    by (simp add: vault_read_def store_read_def getAbstractFileByPath_def read_call_def)
  show ?thesis
  proof (cases "existsSync w ?dir")
    case True
    have over: "node_at (syncFile s p w) destPath = Some (File c)"
      if "node_at w destPath = Some (File old)" "path_segments destPath \<noteq> []"
    proof -
      from fs_writeFile_over_file [of "ext w" destPath old c] that
      obtain r where "fs_writeFile (ext w) destPath c = Ok r"
        "fs_lookup r (path_segments destPath) = Some (File c)"
        by (auto simp: node_at_def)
      then show ?thesis
        using assms True
        by (simp add: syncFile_def Let_def io_bind_def swallow_def rd writeFile_def
            fs_change_def record_call_def node_at_def)
    qed
    have "calls (syncFile s p w) = calls w @ [read_call p, write_call p destPath c]"
      using assms True
      by (simp add: syncFile_def Let_def io_bind_def swallow_def rd writeFile_def
          fs_change_def record_call_def write_call_def split: res.splits)
    moreover have "vault (syncFile s p w) = vault w"
      using assms True
      by (simp add: syncFile_def Let_def io_bind_def swallow_def rd writeFile_def
          fs_change_def record_call_def split: res.splits)
    ultimately show ?thesis using True over by simp
  next
    case False
    show ?thesis
    proof (cases "fs_mkdirSync (ext w) ?dir")
      case (Throw e)
      then show ?thesis
        using assms False
        by (simp add: syncFile_def Let_def io_bind_def swallow_def mkdirSync_def
            fs_change_def record_call_def raises_def)
    next
      case (Ok r1)
      then show ?thesis
        using assms False
        by (simp add: syncFile_def Let_def io_bind_def swallow_def mkdirSync_def rd writeFile_def
            fs_change_def record_call_def raises_def write_call_def split: res.splits)
    qed
  qed
qed

text \<open>
  The managed file \<open>a.md\<close> holds \<open>old\<close>, the external file \<open>/ext/a.md\<close> holds
  \<open>new\<close>: the managed content is written over it.
\<close>

theorem syncFile_writes_without_comparison_witness:
  "shouldSyncFile all_settings ''a.md''
   \<and> getExternalPath all_settings ''a.md'' = Some ''/ext/a.md''
   \<and> getAbstractFileByPath (vault idle_world) ''a.md'' = Some (TFile ''old'')
   \<and> existsSync idle_world (dirname ''/ext/a.md'')
   \<and> node_at idle_world ''/ext/a.md'' = Some (File ''new'')
   \<and> calls (syncFile all_settings ''a.md'' idle_world)
       = [VaultRead ''a.md'', FsWriteFileUtf8 ''/ext/a.md'' ''old'']
   \<and> node_at (syncFile all_settings ''a.md'' idle_world) ''/ext/a.md'' = Some (File ''old'')"
proof -
  have h1: "shouldSyncFile all_settings ''a.md''" by code_simp
  have h2: "getExternalPath all_settings ''a.md'' = Some ''/ext/a.md''" by code_simp
  have h3: "getAbstractFileByPath (vault idle_world) ''a.md'' = Some (TFile ''old'')"
    by code_simp
  have h4: "existsSync idle_world (dirname ''/ext/a.md'')" by code_simp
  have h5: "node_at idle_world ''/ext/a.md'' = Some (File ''new'')" by code_simp
  have h6: "path_segments ''/ext/a.md'' \<noteq> []" by code_simp
  have h7: "calls idle_world = []" by code_simp
  have h8: "read_call ''a.md'' = VaultRead ''a.md''" by code_simp
  have h9: "write_call ''a.md'' ''/ext/a.md'' ''old'' = FsWriteFileUtf8 ''/ext/a.md'' ''old''"
    by code_simp
  from syncFile_writes_without_comparison [OF h1 h2 h3, of "''new''"]
  show ?thesis
    using h1 h2 h3 h4 h5 h6 h7 h8 h9 by simp
qed

section \<open>Outbound rename of a file\<close>

text \<open>
  C7, as stated, fails where the rename raises. The external file \<open>/ext/a.md\<close> exists,
  but the parent \<open>/ext/b\<close> of the new external path is a regular file: \<open>renameSync\<close>
  raises, the error is caught, and \<open>handleFileRename\<close> returns false.
\<close>

theorem handleFileRename_blocked_counterexample:
  "getExternalPath all_settings ''a.md'' = Some ''/ext/a.md''
   \<and> getExternalPath all_settings ''b/y.md'' = Some ''/ext/b/y.md''
   \<and> existsSync rename_blocked_world ''/ext/a.md''
   \<and> handleFileRename all_settings ''a.md'' ''b/y.md'' rename_blocked_world
       = (Some False,
          rename_blocked_world\<lparr>calls := [FsRename ''/ext/a.md'' ''/ext/b/y.md'']\<rparr>)"
  by code_simp

text \<open>
  C7, amended. Let both external paths resolve, to \<open>old\<close> and \<open>new\<close>. If \<open>old\<close>
  does not exist, \<open>handleFileRename\<close> makes no call and returns false. If it exists,
  the parent directory of \<open>new\<close> is created when absent and one \<open>renameSync\<close> call
  is made (no copy, no delete); the result is true when neither call raises, and false
  when one of them does. Whenever the result is not true, the rename handler, which
  calls \<open>handleFileRename\<close> only if both managed paths pass the policy, goes on with
  \<open>syncFile\<close> on the new path.
\<close>

theorem handleFileRename_outcomes:
  assumes "getExternalPath s oldPath = Some old"
    and "getExternalPath s newPath = Some new"
  shows "(\<not> existsSync w old \<longrightarrow> handleFileRename s oldPath newPath w = (Some False, w))
       \<and> (existsSync w old \<and> parent_ready w (dirname new) = Ok r1
            \<and> fs_renameSync r1 old new = Ok r2
          \<longrightarrow> fst (handleFileRename s oldPath newPath w) = Some True
              \<and> ext (snd (handleFileRename s oldPath newPath w)) = r2
              \<and> calls (snd (handleFileRename s oldPath newPath w))
                  = calls w @ mkdir_calls w (dirname new) @ [FsRename old new])
       \<and> (existsSync w old \<and> parent_ready w (dirname new) = Ok r1
            \<and> raises (fs_renameSync r1 old new)
          \<longrightarrow> fst (handleFileRename s oldPath newPath w) = Some False
              \<and> calls (snd (handleFileRename s oldPath newPath w))
                  = calls w @ mkdir_calls w (dirname new) @ [FsRename old new])
       \<and> (existsSync w old \<and> raises (parent_ready w (dirname new))
          \<longrightarrow> handleFileRename s oldPath newPath w
                = (Some False, record_call (FsMkdir (dirname new)) w))
       \<and> (shouldSyncFile s oldPath \<and> shouldSyncFile s newPath
            \<and> fst (handleFileRename s oldPath newPath w) \<noteq> Some True
          \<longrightarrow> on_rename fuel s confirmed (AFile newPath) oldPath w
                = Some (syncFile s newPath (snd (handleFileRename s oldPath newPath w))))"
proof -
  have missing: "handleFileRename s oldPath newPath w = (Some False, w)"
    if "\<not> existsSync w old"
    using assms that by (simp add: handleFileRename_def)
  have renamed: "fst (handleFileRename s oldPath newPath w) = Some True
      \<and> ext (snd (handleFileRename s oldPath newPath w)) = r2
      \<and> calls (snd (handleFileRename s oldPath newPath w))
          = calls w @ mkdir_calls w (dirname new) @ [FsRename old new]"
    if "existsSync w old" "parent_ready w (dirname new) = Ok r1"
      "fs_renameSync r1 old new = Ok r2"
    using assms that
    by (auto simp: handleFileRename_def Let_def io_bind_def parent_ready_def mkdir_calls_def
        mkdirSync_def renameSync_def fs_change_def record_call_def split: if_splits)
  have failed: "fst (handleFileRename s oldPath newPath w) = Some False
      \<and> calls (snd (handleFileRename s oldPath newPath w))
          = calls w @ mkdir_calls w (dirname new) @ [FsRename old new]"
    if "existsSync w old" "parent_ready w (dirname new) = Ok r1"
      "raises (fs_renameSync r1 old new)"
    using assms that
    by (auto simp: handleFileRename_def Let_def io_bind_def parent_ready_def mkdir_calls_def
        mkdirSync_def renameSync_def fs_change_def record_call_def raises_def
        split: if_splits res.splits)
  have noparent: "handleFileRename s oldPath newPath w
      = (Some False, record_call (FsMkdir (dirname new)) w)"
    if "existsSync w old" "raises (parent_ready w (dirname new))"
    using assms that
    by (auto simp: handleFileRename_def Let_def io_bind_def parent_ready_def
        mkdirSync_def fs_change_def raises_def split: if_splits res.splits)
  have fallback: "on_rename fuel s confirmed (AFile newPath) oldPath w
      = Some (syncFile s newPath (snd (handleFileRename s oldPath newPath w)))"
    if "shouldSyncFile s oldPath" "shouldSyncFile s newPath"
      "fst (handleFileRename s oldPath newPath w) \<noteq> Some True"
    using that by (cases "handleFileRename s oldPath newPath w") (simp add: on_rename_def Let_def)
  show ?thesis
    using missing renamed failed noparent fallback by blast
qed

text \<open>
  The managed file \<open>a/x.md\<close> has been renamed to \<open>a/y.md\<close> and \<open>/ext/a/x.md\<close>
  exists: one rename call, result true.
\<close>

theorem handleFileRename_outcomes_witness:
  "getExternalPath all_settings ''a/x.md'' = Some ''/ext/a/x.md''
   \<and> getExternalPath all_settings ''a/y.md'' = Some ''/ext/a/y.md''
   \<and> existsSync rename_world ''/ext/a/x.md''
   \<and> parent_ready rename_world (dirname ''/ext/a/y.md'') = Ok (ext rename_world)
   \<and> fs_renameSync (ext rename_world) ''/ext/a/x.md'' ''/ext/a/y.md''
       = Ok (Dir [(''ext'', Dir [(''a'', Dir [(''y.md'', File ''text'')])])])
   \<and> fst (handleFileRename all_settings ''a/x.md'' ''a/y.md'' rename_world) = Some True
   \<and> calls (snd (handleFileRename all_settings ''a/x.md'' ''a/y.md'' rename_world))
       = [FsRename ''/ext/a/x.md'' ''/ext/a/y.md'']"
proof -
  have h1: "getExternalPath all_settings ''a/x.md'' = Some ''/ext/a/x.md''" by code_simp
  have h2: "getExternalPath all_settings ''a/y.md'' = Some ''/ext/a/y.md''" by code_simp
  have h3: "existsSync rename_world ''/ext/a/x.md''" by code_simp
  have h4: "parent_ready rename_world (dirname ''/ext/a/y.md'') = Ok (ext rename_world)"
    by code_simp
  have h5: "fs_renameSync (ext rename_world) ''/ext/a/x.md'' ''/ext/a/y.md''
      = Ok (Dir [(''ext'', Dir [(''a'', Dir [(''y.md'', File ''text'')])])])"
    by code_simp
  have h6: "calls rename_world = []" by code_simp
  have h7: "mkdir_calls rename_world (dirname ''/ext/a/y.md'') = []" by code_simp
  from handleFileRename_outcomes [OF h1 h2, of rename_world "ext rename_world"
      "Dir [(''ext'', Dir [(''a'', Dir [(''y.md'', File ''text'')])])]"]
  show ?thesis
    using h1 h2 h3 h4 h5 h6 h7 by simp
qed

section \<open>The path policy as a gate\<close>

text \<open>
  C1 does not hold in the code for the rename of a folder. The folder \<open>private\<close> is
  excluded. The managed folder \<open>notes\<close> is renamed to \<open>private\<close>: the rename handler
  calls \<open>handleFolderRename\<close> because one of the two paths, the old one, passes the
  policy; \<open>handleFolderRename\<close> does not look at the policy and renames the external
  directory to \<open>/ext/private\<close>, the external counterpart of the excluded path. The
  branch of the same handler for a file tests the two paths apart: when the managed file
  \<open>notes/a.md\<close> is renamed to \<open>private/a.md\<close>, it asks for, and makes, the deletion
  of the old external file and makes no call on \<open>/ext/private/a.md\<close>.
\<close>

theorem folder_rename_writes_excluded_counterpart:
  "\<not> shouldSyncFile all_settings ''private''
   \<and> getExternalPath all_settings ''private'' = Some ''/ext/private''
   \<and> on_rename 1 all_settings False (AFolder ''private'') ''notes'' notes_world
       = Some (notes_world
                 \<lparr>ext := Dir [(''ext'', Dir [(''private'', Dir [(''a.md'', File ''text'')])])],
                  calls := [FsRename ''/ext/notes'' ''/ext/private'']\<rparr>)
   \<and> \<not> shouldSyncFile all_settings ''private/a.md''
   \<and> getExternalPath all_settings ''private/a.md'' = Some ''/ext/private/a.md''
   \<and> on_rename 1 all_settings True (AFile ''private/a.md'') ''notes/a.md'' notes_world
       = Some (notes_world
                 \<lparr>ext := Dir [(''ext'', Dir [(''notes'', Dir [])])],
                  calls := [ConfirmationModal ''/ext/notes/a.md'',
                            FsUnlink ''/ext/notes/a.md'']\<rparr>)"
  by code_simp

lemma replace_backslashes_id: "backslash \<notin> set p \<Longrightarrow> replace_backslashes p = p"
  by (induction p) (auto simp: replace_backslashes_def)

text \<open>
  The other operations are behind a check of the policy. Let the policy return false
  for \<open>p\<close>. \<open>syncFile\<close>, \<open>syncFolder\<close> and \<open>handleFolderDeletion\<close> called on \<open>p\<close>
  return at their own check; the modify, create and delete handlers of the managed store
  do nothing for \<open>p\<close>; the rename handler of a file calls \<open>handleFileRename\<close> only when
  both paths pass, and otherwise works on the other path alone, if that one passes.
  \<open>handleExternalFileChange\<close> and \<open>handleExternalFileDeletion\<close> called on the relative
  path \<open>p\<close> make no call and leave the managed store as it is;
  \<open>handleExternalDirectoryCreation\<close>, \<open>handleExternalDirectoryDeletion\<close> and the walk
  of the second step of full synchronization called on \<open>p\<close> do nothing, and that walk
  skips an entry whose path is \<open>p\<close>. The walk of the first step checks the path of every
  directory but the one it is started on with the empty relative path.
\<close>

lemma policy_checked_on_entry:
  assumes "\<not> shouldSyncFile s p"
  shows "syncFile s p w = w
       \<and> syncFolder s p w = w
       \<and> handleFolderDeletion s confirmed p w = w
       \<and> on_modify s (AFile p) w = w
       \<and> on_create s (AFile p) w = w
       \<and> on_create s (AFolder p) w = w
       \<and> on_delete s confirmed (AFile p) w = w
       \<and> on_delete s confirmed (AFolder p) w = w
       \<and> on_rename fuel s confirmed (AFile q) p w
           = (if shouldSyncFile s q then Some (syncFile s q w) else Some w)
       \<and> on_rename fuel s confirmed (AFile p) q w
           = (if shouldSyncFile s q then Some (handleFileDeletion s confirmed q w) else Some w)
       \<and> vault (handleExternalFileChange s fullPath p w) = vault w
       \<and> calls (handleExternalFileChange s fullPath p w) = calls w
       \<and> vault (handleExternalFileDeletion s p w) = vault w
       \<and> calls (handleExternalFileDeletion s p w) = calls w
       \<and> handleExternalDirectoryCreation s fullPath p w = w
       \<and> handleExternalDirectoryDeletion s p w = w
       \<and> syncDirectoryFromExternal s node dirPath p w = (Ok (), w)
       \<and> (raw \<noteq> [] \<and> replace_backslashes raw = p
          \<longrightarrow> scanAndCreateAllDirectories s node dirPath raw w = w)
       \<and> (replace_backslashes (if rel \<noteq> [] then path_join rel name else name) = p
          \<longrightarrow> sync_entries s ((name, entry) # rest) dirPath rel w
                = sync_entries s rest dirPath rel w)"
proof -
  have outbound: "syncFile s p w = w" "syncFolder s p w = w"
    "handleFolderDeletion s confirmed p w = w"
    using assms by (simp_all add: syncFile_def syncFolder_def handleFolderDeletion_def)
  have events: "on_modify s (AFile p) w = w" "on_create s (AFile p) w = w"
    "on_create s (AFolder p) w = w" "on_delete s confirmed (AFile p) w = w"
    "on_delete s confirmed (AFolder p) w = w"
    using assms by (simp_all add: on_modify_def on_create_def on_delete_def)
  have renames: "on_rename fuel s confirmed (AFile q) p w
        = (if shouldSyncFile s q then Some (syncFile s q w) else Some w)"
    "on_rename fuel s confirmed (AFile p) q w
        = (if shouldSyncFile s q then Some (handleFileDeletion s confirmed q w) else Some w)"
    using assms by (simp_all add: on_rename_def Let_def)
  have change: "vault (handleExternalFileChange s fullPath p w) = vault w"
    "calls (handleExternalFileChange s fullPath p w) = calls w"
    using assms
    by (simp_all add: handleExternalFileChange_def Let_def setProcessingExternalChange_def)
  have deletion: "vault (handleExternalFileDeletion s p w) = vault w"
    "calls (handleExternalFileDeletion s p w) = calls w"
    using assms
    by (simp_all add: handleExternalFileDeletion_def Let_def setProcessingExternalChange_def
        setTimeout_def)
  have dirs: "handleExternalDirectoryCreation s fullPath p w = w"
    "handleExternalDirectoryDeletion s p w = w"
    using assms
    by (simp_all add: handleExternalDirectoryCreation_def handleExternalDirectoryDeletion_def)
  have walk: "syncDirectoryFromExternal s node dirPath p w = (Ok (), w)"
    using assms by simp
  have scan: "scanAndCreateAllDirectories s node dirPath raw w = w"
    if "raw \<noteq> []" "replace_backslashes raw = p"
    using assms that by (cases node) (simp_all add: Let_def)
  have skip: "sync_entries s ((name, entry) # rest) dirPath rel w
        = sync_entries s rest dirPath rel w"
    if "replace_backslashes (if rel \<noteq> [] then path_join rel name else name) = p"
    using assms that by (simp add: Let_def)
  show ?thesis
    using outbound events renames change deletion dirs walk scan skip by blast
qed

section \<open>Full synchronization\<close>

lemma adds_folders_refl [simp]: "adds_folders v v"
  by (simp add: adds_folders_def split: option.splits)


lemma only_folder_calls_refl [simp]: "only_folder_calls w w"
  by (simp add: only_folder_calls_def)


lemma same_outside_vault_refl [simp]: "same_outside_vault w w"
  by (simp add: same_outside_vault_def)




lemma ensure_loop_noop:
  "list_all (occupied (vault w)) (ensure_paths dirs cur) \<Longrightarrow> ensure_loop dirs cur w = (Ok (), w)"
  by (induction dirs arbitrary: cur) (auto simp: Let_def occupied_def getAbstractFileByPath_def)





lemma ensured_noop: "dir_ok (vault w) p \<Longrightarrow> ensured p w = w"
  using ensure_loop_noop [of w "split_slash p" "[]"]
  by (auto simp: ensured_def ensureVaultDirectory_def dir_ok_def occupied_def)

lemma folder_step_refl [simp]: "folder_step w w"
  by (simp add: folder_step_def)







declare scanAndCreateAllDirectories.simps [simp del] scan_dirs.simps [simp del]




















lemma isTFile_simps [simp]:
  "isTFile None = False" "isTFile (Some TFolder) = False" "isTFile (Some (TFile c)) = True"
  by (simp_all add: isTFile_def)


lemma keeps_kinds_refl [simp]: "keeps_kinds v v"
  by (simp add: keeps_kinds_def)



lemma sync_step_refl [simp]: "sync_step P w w"
  by (simp add: sync_step_def)






lemma read_step_refl [simp]: "read_step w w"
  by (simp add: read_step_def)
















lemma holds_all_iff:
  "holds_all v items \<longleftrightarrow> (\<forall>p c. (p, c) \<in> set items \<longrightarrow> map_of v p = Some (TFile c))"
  unfolding holds_all_def by fastforce


lemma settled_Nil [simp]: "settled v []"
  by (simp add: settled_def)




declare syncDirectoryFromExternal.simps [simp del] sync_entries.simps(2) [simp del]

lemma record_call_vault [simp]: "vault (record_call c w) = vault w"
  by (simp add: record_call_def)



declare sync_completes.simps [simp del] sync_files.simps [simp del] sync_dirs.simps [simp del]










lemma holds_all_append [simp]: "holds_all v (xs @ ys) \<longleftrightarrow> holds_all v xs \<and> holds_all v ys"
  by (auto simp: holds_all_def)

lemma holds_all_Nil [simp]: "holds_all v []"
  by (simp add: holds_all_def)



lemma ensured_noop_head:
  "list_all (dir_ok (vault w)) (rel # ds) \<Longrightarrow> ensured rel w = w"
  by (simp add: ensured_noop)





















end
